theory Spec2Isabelle
  imports Complex_Main "HOL-Library.Char_ord" "HOL-Library.List_Lexorder" "HOL-Library.Multiset"
    "HOL-Library.Product_Lexorder"
begin

section \<open>Falcon: the Catalog Store, the transcoding pipeline and the streaming gateway\<close>

text \<open>
  A shallow embedding of the Go services of the repository: package \<open>database\<close>
  (the Catalog Store: tables \<open>videos\<close> and \<open>video_streams\<close>), package
  \<open>ffmpeg\<close>, the transcoder's workflow and activities, and the streamer's read
  handlers.  A Go result \<open>(v, err)\<close> is a sum: \<open>Inl msg\<close> is a non-nil error,
  \<open>Inr v\<close> is the value with a nil error.  Everything a function gets from outside
  the process (whether the database answers, the clock, the outcome of running the
  encoder, the temporary directory) is an explicit argument.
\<close>

subsection \<open>Data model (package database)\<close>

text \<open>
  \<open>time.Time\<close> is an instant, an integer here.  \<open>float64\<close> is \<open>real\<close>: the only
  float the code ever produces itself is the zero value; parsing is never reached
  with the media info the code builds.  Field names that two Go structs share are
  prefixed for all but \<open>Video\<close>: \<open>StreamID\<close>, \<open>StreamSize\<close> and \<open>StreamCreatedAt\<close>
  are \<open>VideoStream.ID\<close>, \<open>.Size\<close> and \<open>.CreatedAt\<close>.
\<close>

type_synonym time = int

record Video =
  ID :: string
  Title :: string
  OriginalName :: string
  OriginalPath :: string
  ProcessingState :: string
  Duration :: real
  Size :: int
  ContentType :: string
  CreatedAt :: time
  UpdatedAt :: time

record VideoStream =
  StreamID :: string
  VideoID :: string
  Resolution :: string
  Bitrate :: string
  Format :: string
  Path :: string
  StreamSize :: int
  SegmentSize :: int
  StreamCreatedAt :: time

text \<open>
  The two tables, rows in insertion order.  \<open>videos\<close> has primary key \<open>id\<close>;
  \<open>video_streams\<close> has primary key \<open>id\<close>, the constraint
  \<open>UNIQUE(video_id, resolution, format)\<close> and a foreign key to \<open>videos(id)\<close>.
\<close>

record Database =
  videos :: "Video list"
  video_streams :: "VideoStream list"

text \<open>
  What one call of the connection pool meets: whether the call gets a connection and
  the server takes the statement (otherwise \<open>pool.Exec\<close>, \<open>QueryRow(..).Scan\<close> and
  \<open>pool.Query\<close> return the error); the server's clock (SQL \<open>NOW()\<close>); how many
  rows of a result \<open>rows.Next()\<close> delivers before the connection fails, \<open>None\<close>
  when it delivers them all; and the order in which the server emits rows that are
  equal under the statement's \<open>ORDER BY\<close>, which SQL leaves open: rows with the same
  sort key come by descending \<open>tiebreak\<close> of their primary key.
\<close>

record PgEnv =
  reachable :: bool
  NOW :: time
  fetched :: "nat option"
  tiebreak :: "string \<Rightarrow> nat"

text \<open>
  The loop \<open>for rows.Next() { ... rows.Scan(...) ... append }\<close> of the two queries
  that return many rows.  \<open>rows.Next()\<close> is false at the end of the result and also
  when the server refuses to execute the statement or the connection fails; the
  reason is then in \<open>rows.Err()\<close>, which neither loop reads: the rows read so far
  are returned with a nil error.
\<close>

definition rowsRead :: "PgEnv \<Rightarrow> 'a list \<Rightarrow> 'a list" where
  "rowsRead pg result = (case fetched pg of None \<Rightarrow> result | Some k \<Rightarrow> take k result)"

definition hasVideo :: "Database \<Rightarrow> string \<Rightarrow> bool" where
  "hasVideo db videoID = (find (\<lambda>v. ID v = videoID) (videos db) \<noteq> None)"

definition CreateVideo :: "PgEnv \<Rightarrow> Video \<Rightarrow> Database \<Rightarrow> string + Database" where
  \<comment> \<open>The INSERT names every column but \<open>duration\<close>, which takes its default 0.\<close>
  "CreateVideo pg video db =
     (if \<not> reachable pg then Inl ''failed to insert video: connection failed''
      else if hasVideo db (ID video)
      then Inl ''failed to insert video: duplicate key value violates unique constraint''
      else Inr (db\<lparr>videos := videos db @ [video\<lparr>Duration := 0\<rparr>]\<rparr>))"

definition setStatus :: "string \<Rightarrow> string \<Rightarrow> time \<Rightarrow> Video \<Rightarrow> Video" where
  \<comment> \<open>\<open>SET processing_state = $1, updated_at = NOW() WHERE id = $2\<close>, on one row.\<close>
  "setStatus videoID status t v =
     (if ID v = videoID then v\<lparr>ProcessingState := status, UpdatedAt := t\<rparr> else v)"

definition UpdateVideoStatus :: "PgEnv \<Rightarrow> string \<Rightarrow> string \<Rightarrow> Database \<Rightarrow> string + Database" where
  "UpdateVideoStatus pg videoID status db =
     (if \<not> reachable pg then Inl ''failed to update video status: connection failed''
      else Inr (db\<lparr>videos := map (setStatus videoID status (NOW pg)) (videos db)\<rparr>))"

definition GetVideo :: "PgEnv \<Rightarrow> string \<Rightarrow> Database \<Rightarrow> string + Video" where
  "GetVideo pg videoID db =
     (if \<not> reachable pg then Inl ''failed to get video: connection failed''
      else case find (\<lambda>v. ID v = videoID) (videos db) of
             None \<Rightarrow> Inl (''video not found: '' @ videoID)
           | Some v \<Rightarrow> Inr v)"

definition sameKey :: "VideoStream \<Rightarrow> VideoStream \<Rightarrow> bool" where
  \<comment> \<open>The conflict target \<open>(video_id, resolution, format)\<close>.\<close>
  "sameKey s r = (VideoID r = VideoID s \<and> Resolution r = Resolution s \<and> Format r = Format s)"

definition excluded :: "VideoStream \<Rightarrow> VideoStream \<Rightarrow> VideoStream" where
  \<comment> \<open>\<open>DO UPDATE SET path = EXCLUDED.path, size = EXCLUDED.size,
      segment_size = EXCLUDED.segment_size\<close>, on the conflicting row.\<close>
  "excluded s r =
     (if sameKey s r
      then r\<lparr>Path := Path s, StreamSize := StreamSize s, SegmentSize := SegmentSize s\<rparr>
      else r)"

definition AddVideoStream :: "PgEnv \<Rightarrow> VideoStream \<Rightarrow> Database \<Rightarrow> string + Database" where
  "AddVideoStream pg stream db =
     (if \<not> reachable pg then Inl ''failed to insert video stream: connection failed''
      else if find (sameKey stream) (video_streams db) \<noteq> None
      then Inr (db\<lparr>video_streams := map (excluded stream) (video_streams db)\<rparr>)
      else if find (\<lambda>r. StreamID r = StreamID stream) (video_streams db) \<noteq> None
      then Inl ''failed to insert video stream: duplicate key value violates unique constraint''
      else if \<not> hasVideo db (VideoID stream)
      then Inl ''failed to insert video stream: violates foreign key constraint''
      else Inr (db\<lparr>video_streams := video_streams db @ [stream]\<rparr>))"

definition streamsWithKey :: "Database \<Rightarrow> VideoStream \<Rightarrow> VideoStream list" where
  "streamsWithKey db s = filter (sameKey s) (video_streams db)"

definition uniqueStreams :: "Database \<Rightarrow> bool" where
  \<comment> \<open>\<open>UNIQUE(video_id, resolution, format)\<close> as a property of the table.\<close>
  "uniqueStreams db =
     distinct (map (\<lambda>r. (VideoID r, Resolution r, Format r)) (video_streams db))"

subsection \<open>Formatting (package fmt)\<close>

definition digit :: "nat \<Rightarrow> char" where
  "digit n = ''0123456789'' ! n"

fun itoa :: "nat \<Rightarrow> string" where
  "itoa n = (if n < 10 then [digit n] else itoa (n div 10) @ [digit (n mod 10)])"

declare itoa.simps [simp del]

definition Sprintf_d :: "int \<Rightarrow> string" where
  \<comment> \<open>\<open>fmt.Sprintf("%d", i)\<close> for an integer.\<close>
  "Sprintf_d i = (if i < 0 then CHR ''-'' # itoa (nat (- i)) else itoa (nat i))"

definition Sprintf_d_string :: "string \<Rightarrow> string" where
  \<comment> \<open>\<open>fmt.Sprintf("%d", s)\<close> for a string operand: the verb does not fit the
      type, and fmt prints \<open>%!d(string=s)\<close>.\<close>
  "Sprintf_d_string s = ''%!d(string='' @ s @ '')''"

subsection \<open>The encoder (package ffmpeg)\<close>

record FFmpeg =
  BinaryPath :: string
  ThreadCount :: int
  Preset :: string

text \<open>\<open>ffmpeg.Resolution\<close>; \<open>ResBitrate\<close> is its field \<open>Bitrate\<close>, a string such as "2500k".\<close>

record Resolution_cfg =
  Width :: int
  Height :: int
  ResBitrate :: string

text \<open>
  What running an external command gives back: the error of \<open>cmd.Run()\<close>
  (\<open>None\<close> is nil) and the two captured streams.
\<close>

record ExecResult =
  runError :: "string option"
  stdout :: string
  stderr :: string

type_synonym exec = "string \<Rightarrow> string list \<Rightarrow> ExecResult"

definition variantName :: "nat \<Rightarrow> string" where
  "variantName i = ''v'' @ itoa i"

definition playlistFile :: "string \<Rightarrow> nat \<Rightarrow> string" where
  "playlistFile segmentFilename i = segmentFilename @ ''_'' @ variantName i @ ''.m3u8''"

definition segmentFile :: "string \<Rightarrow> nat \<Rightarrow> string" where
  \<comment> \<open>\<open>%%03d\<close> in the format prints the characters \<open>%03d\<close>: the pattern is the encoder's.\<close>
  "segmentFile segmentFilename i = segmentFilename @ ''_'' @ variantName i @ ''_%03d.ts''"

definition streamInf :: "string \<Rightarrow> nat \<Rightarrow> Resolution_cfg \<Rightarrow> string" where
  \<comment> \<open>The two \<open>WriteString\<close> calls of one loop iteration of \<open>TranscodeToHLS\<close>.\<close>
  "streamInf segmentFilename i res =
     ''#EXT-X-STREAM-INF:BANDWIDTH='' @ Sprintf_d_string (ResBitrate res) @
     '',RESOLUTION='' @ Sprintf_d (Width res) @ ''x'' @ Sprintf_d (Height res) @ [CHR 0x0A] @
     playlistFile segmentFilename i @ [CHR 0x0A]"

fun masterPlaylistEntries :: "string \<Rightarrow> nat \<Rightarrow> Resolution_cfg list \<Rightarrow> string list" where
  "masterPlaylistEntries segmentFilename i [] = []"
| "masterPlaylistEntries segmentFilename i (res # rest) =
     streamInf segmentFilename i res # masterPlaylistEntries segmentFilename (Suc i) rest"

definition masterPlaylistContent :: "string \<Rightarrow> Resolution_cfg list \<Rightarrow> string" where
  \<comment> \<open>The local \<open>strings.Builder\<close> of \<open>TranscodeToHLS\<close> when the loop is over.\<close>
  "masterPlaylistContent segmentFilename resolutions =
     ''#EXTM3U'' @ [CHR 0x0A] @ ''#EXT-X-VERSION:3'' @ [CHR 0x0A] @
     concat (masterPlaylistEntries segmentFilename 0 resolutions)"

fun variantArgs :: "FFmpeg \<Rightarrow> string \<Rightarrow> string \<Rightarrow> nat \<Rightarrow> Resolution_cfg list \<Rightarrow> string list" where
  "variantArgs f outputDir segmentFilename i [] = []"
| "variantArgs f outputDir segmentFilename i (res # rest) =
     [''-map'', ''0:v:0'',
      ''-map'', ''0:a:0'',
      ''-c:v'', ''libx264'',
      ''-preset'', Preset f,
      ''-b:v'', ResBitrate res,
      ''-s'', Sprintf_d (Width res) @ ''x'' @ Sprintf_d (Height res),
      ''-c:a'', ''aac'',
      ''-b:a'', ''128k'',
      ''-hls_time'', ''10'',
      ''-hls_list_size'', ''0'',
      ''-hls_segment_filename'', outputDir @ ''/'' @ segmentFile segmentFilename i,
      outputDir @ ''/'' @ playlistFile segmentFilename i]
     @ variantArgs f outputDir segmentFilename (Suc i) rest"

definition TranscodeToHLS ::
  "FFmpeg \<Rightarrow> exec \<Rightarrow> string \<Rightarrow> string \<Rightarrow> string \<Rightarrow> Resolution_cfg list \<Rightarrow> string + unit" where
  \<comment> \<open>The master playlist text is built next to the arguments and then dropped: the
      function writes no file and returns the command's outcome only.\<close>
  "TranscodeToHLS f run inputFile outputDir segmentFilename resolutions =
     (let args = [''-i'', inputFile, ''-threads'', Sprintf_d (ThreadCount f)]
                 @ variantArgs f outputDir segmentFilename 0 resolutions;
          masterPlaylist = masterPlaylistContent segmentFilename resolutions;
          cmd = run (BinaryPath f) args
      in case runError cmd of
           Some err \<Rightarrow> Inl (''failed to transcode: '' @ err @ '' - '' @ stderr cmd)
         | None \<Rightarrow> Inr ())"

definition GetMediaInfo :: "FFmpeg \<Rightarrow> exec \<Rightarrow> string \<Rightarrow> string + (string \<rightharpoonup> string)" where
  \<comment> \<open>The command's exit status is ignored, its stderr is read into \<open>output\<close> and
      never parsed; \<open>info\<close> is the fresh map.\<close>
  "GetMediaInfo f run inputFile =
     (let cmd = run (BinaryPath f) [''-i'', inputFile, ''-hide_banner''];
          info = Map.empty;
          output = stderr cmd
      in Inr info)"

subsection \<open>The transcoder's activities (cmd/transcoder)\<close>

text \<open>
  \<open>TranscodeParams\<close>, \<open>DownloadResult\<close>, \<open>MetadataResult\<close>, \<open>StreamInfo\<close> and
  \<open>TranscodeResult\<close>, fields prefixed by the struct's initial where the name is
  taken (\<open>pVideoID\<close> is \<open>TranscodeParams.VideoID\<close>).
\<close>

record TranscodeParams =
  pVideoID :: string
  pObjectKey :: string
  pFilename :: string
  pContentType :: string

record DownloadResult =
  dVideoID :: string
  LocalPath :: string
  dOriginalPath :: string

record MetadataResult =
  mVideoID :: string
  mDuration :: real

record StreamInfo =
  iResolution :: string
  iBitrate :: string
  iFormat :: string
  iPath :: string
  iSize :: int
  iSegmentSize :: int

record TranscodeResult =
  tVideoID :: string
  OutputDirectory :: string
  Streams :: "StreamInfo list"

text \<open>
  What one attempt of an activity meets outside the process: the operating system
  (\<open>os.MkdirTemp\<close>, \<open>os.TempDir\<close>, \<open>os.Stat\<close>, \<open>os.RemoveAll\<close>, the clock at its
  \<open>k\<close>-th reading), the Object Store (\<open>Storage.DownloadFile\<close>), the encoder process,
  the configuration (\<open>viper.UnmarshalKey("ffmpeg.resolutions", _)\<close>) and the database
  at the attempt's \<open>k\<close>-th call.  The path functions of \<open>path/filepath\<close> and
  \<open>strconv.ParseFloat\<close> (its value, the error dropped) are taken from here as well:
  every theorem below holds whatever they compute.
\<close>

record Host =
  MkdirTemp :: "string \<Rightarrow> string \<Rightarrow> string + string"
  TempDir :: string
  Stat :: "string \<Rightarrow> string + int"
  RemoveAll :: "string \<Rightarrow> string + unit"
  Now :: "nat \<Rightarrow> time"
  DownloadFile :: "string \<Rightarrow> string \<Rightarrow> string + unit"
  Exec :: exec
  UnmarshalResolutions :: "string + Resolution_cfg list"
  Pg :: "nat \<Rightarrow> PgEnv"
  Base :: "string \<Rightarrow> string"
  Dir :: "string \<Rightarrow> string"
  Join :: "string \<Rightarrow> string \<Rightarrow> string"
  ParseFloat :: "string \<Rightarrow> real"

definition TrimSuffix :: "string \<Rightarrow> string \<Rightarrow> string" where
  "TrimSuffix s suffix =
     (if length suffix \<le> length s \<and> drop (length s - length suffix) s = suffix
      then take (length s - length suffix) s else s)"

definition Ext :: "string \<Rightarrow> string" where
  \<comment> \<open>\<open>filepath.Ext\<close>: the suffix from the last dot of the last path element.\<close>
  "Ext path =
     (let name = rev (takeWhile (\<lambda>c. c \<noteq> CHR ''/'') (rev path))
      in if CHR ''.'' \<in> set name
         then CHR ''.'' # rev (takeWhile (\<lambda>c. c \<noteq> CHR ''.'') (rev name))
         else [])"

definition getFileSize :: "Host \<Rightarrow> string \<Rightarrow> int" where
  "getFileSize h path = (case Stat h path of Inl err \<Rightarrow> 0 | Inr sz \<Rightarrow> sz)"

definition DownloadVideoActivity ::
  "Host \<Rightarrow> TranscodeParams \<Rightarrow> Database \<Rightarrow> (string + DownloadResult) \<times> Database" where
  "DownloadVideoActivity h params db =
     (case MkdirTemp h [] (''transcode-'' @ pVideoID params) of
        Inl err \<Rightarrow> (Inl err, db)
      | Inr tempDir \<Rightarrow>
          let filename = Base h (pObjectKey params);
              localPath = Join h tempDir filename
          in (case DownloadFile h (pObjectKey params) localPath of
                Inl err \<Rightarrow> (Inl err, db)
              | Inr _ \<Rightarrow>
                  let now = Now h 0;
                      video = \<lparr>ID = pVideoID params,
                               Title = TrimSuffix (pFilename params) (Ext (pFilename params)),
                               OriginalName = pFilename params,
                               OriginalPath = pObjectKey params,
                               ProcessingState = ''downloading'',
                               Duration = 0,
                               Size = getFileSize h localPath,
                               ContentType = pContentType params,
                               CreatedAt = now,
                               UpdatedAt = now\<rparr>
                  in (case CreateVideo (Pg h 0) video db of
                        Inl err \<Rightarrow> (Inl err, db)
                      | Inr db' \<Rightarrow>
                          (Inr \<lparr>dVideoID = pVideoID params,
                                LocalPath = localPath,
                                dOriginalPath = pObjectKey params\<rparr>, db'))))"

definition ExtractMetadataActivity ::
  "Host \<Rightarrow> FFmpeg \<Rightarrow> DownloadResult \<Rightarrow> Database \<Rightarrow> (string + MetadataResult) \<times> Database" where
  "ExtractMetadataActivity h f download db =
     (case GetMediaInfo f (Exec h) (LocalPath download) of
        Inl err \<Rightarrow> (Inl err, db)
      | Inr info \<Rightarrow>
          let duration = (case info ''duration'' of
                            Some durationStr \<Rightarrow> ParseFloat h durationStr
                          | None \<Rightarrow> 0)
          in (case UpdateVideoStatus (Pg h 0) (dVideoID download) ''analyzing'' db of
                Inl err \<Rightarrow> (Inl err, db)
              | Inr db' \<Rightarrow> (Inr \<lparr>mVideoID = dVideoID download, mDuration = duration\<rparr>, db')))"

definition streamPath :: "TranscodeParams \<Rightarrow> nat \<Rightarrow> string" where
  "streamPath params i =
     ''videos/'' @ pVideoID params @ ''/hls/'' @ playlistFile (pVideoID params) i"

definition resolutionLabel :: "Resolution_cfg \<Rightarrow> string" where
  "resolutionLabel res = Sprintf_d (Width res) @ ''x'' @ Sprintf_d (Height res)"

definition streamRow :: "Host \<Rightarrow> TranscodeParams \<Rightarrow> nat \<Rightarrow> Resolution_cfg \<Rightarrow> VideoStream" where
  \<comment> \<open>The \<open>database.VideoStream\<close> literal of loop iteration \<open>i\<close>.\<close>
  "streamRow h params i res =
     \<lparr>StreamID = pVideoID params @ ''-'' @ variantName i,
      VideoID = pVideoID params,
      Resolution = resolutionLabel res,
      Bitrate = ResBitrate res,
      Format = ''hls'',
      Path = streamPath params i,
      StreamSize = 0,
      SegmentSize = 10,
      StreamCreatedAt = Now h i\<rparr>"

definition streamInfo :: "TranscodeParams \<Rightarrow> nat \<Rightarrow> Resolution_cfg \<Rightarrow> StreamInfo" where
  "streamInfo params i res =
     \<lparr>iResolution = resolutionLabel res,
      iBitrate = ResBitrate res,
      iFormat = ''hls'',
      iPath = streamPath params i,
      iSize = 0,
      iSegmentSize = 10\<rparr>"

text \<open>
  The loop \<open>for i, res := range resolutions\<close> of \<open>TranscodeVideoActivity\<close>: one
  \<open>AddVideoStream\<close> per ladder entry (the attempt's database calls 2, 3, ...), the
  first error ends the activity with the rows written so far left in the table.
\<close>

fun recordStreams ::
  "Host \<Rightarrow> TranscodeParams \<Rightarrow> nat \<Rightarrow> Resolution_cfg list \<Rightarrow> StreamInfo list \<Rightarrow> Database
   \<Rightarrow> (string + StreamInfo list) \<times> Database" where
  "recordStreams h params i [] streams db = (Inr streams, db)"
| "recordStreams h params i (res # rest) streams db =
     (case AddVideoStream (Pg h (2 + i)) (streamRow h params i res) db of
        Inl err \<Rightarrow> (Inl err, db)
      | Inr db' \<Rightarrow>
          recordStreams h params (Suc i) rest (streams @ [streamInfo params i res]) db')"

definition TranscodeVideoActivity ::
  "Host \<Rightarrow> FFmpeg \<Rightarrow> TranscodeParams \<Rightarrow> Database \<Rightarrow> (string + TranscodeResult) \<times> Database" where
  "TranscodeVideoActivity h f params db =
     (case GetVideo (Pg h 0) (pVideoID params) db of
        Inl err \<Rightarrow> (Inl err, db)
      | Inr video \<Rightarrow>
     (case UpdateVideoStatus (Pg h 1) (pVideoID params) ''transcoding'' db of
        Inl err \<Rightarrow> (Inl err, db)
      | Inr db1 \<Rightarrow>
     (case MkdirTemp h [] (''output-'' @ pVideoID params) of
        Inl err \<Rightarrow> (Inl err, db1)
      | Inr outputDir \<Rightarrow>
     (let tempDir = Dir h (Join h (TempDir h) (''transcode-'' @ pVideoID params));
          inputFile = Join h tempDir (Base h (pObjectKey params))
      in case UnmarshalResolutions h of
           Inl err \<Rightarrow> (Inl err, db1)
         | Inr resolutions \<Rightarrow>
     (let segmentFilename = pVideoID params
      in case TranscodeToHLS f (Exec h) inputFile outputDir segmentFilename resolutions of
           Inl err \<Rightarrow> (Inl err, db1)
         | Inr _ \<Rightarrow>
     (case recordStreams h params 0 resolutions [] db1 of
        (Inl err, db2) \<Rightarrow> (Inl err, db2)
      | (Inr streams, db2) \<Rightarrow>
          (Inr \<lparr>tVideoID = pVideoID params,
                OutputDirectory = outputDir,
                Streams = streams\<rparr>, db2)))))))"

definition CleanupActivity :: "Host \<Rightarrow> string \<Rightarrow> Database \<Rightarrow> (string + unit) \<times> Database" where
  "CleanupActivity h localPath db = (RemoveAll h (Dir h localPath), db)"

definition statusActivity :: "string \<Rightarrow> string \<Rightarrow> Host \<Rightarrow> Database \<Rightarrow> (string + unit) \<times> Database" where
  \<comment> \<open>The function literal that \<open>updateVideoStatus\<close> hands to the runtime: what it
      does when it is run.\<close>
  "statusActivity videoID status h db =
     (case UpdateVideoStatus (Pg h 0) videoID status db of
        Inl err \<Rightarrow> (Inl err, db)
      | Inr db' \<Rightarrow> (Inr (), db'))"

subsection \<open>The workflow (cmd/transcoder, on the durable-execution runtime)\<close>

text \<open>
  The worker that \<open>main()\<close> builds: \<open>w.RegisterActivity\<close> is called for these four
  functions and for no other, and the runtime registers a function under its name.
\<close>

definition registeredActivities :: "string list" where
  "registeredActivities =
     [''DownloadVideoActivity'', ''ExtractMetadataActivity'', ''TranscodeVideoActivity'',
      ''CleanupActivity'']"

text \<open>
  \<open>workflow.ExecuteActivity(ctx, act, ...).Get\<close> under a retry policy of
  \<open>MaximumAttempts\<close> attempts.  The runtime schedules the activity by the name of the
  function it is given (\<open>name\<close>) and the worker looks that name up among its
  registered activities: an attempt runs the function when the name is registered
  and fails without running anything when it is not.  Attempts follow until one
  returns no error or they are used up; the error of the last attempt is the call's.
  \<open>hosts k\<close> is what attempt \<open>k\<close> meets.  The second component lists the Catalog
  Store after each attempt, oldest first.  (The runtime reads 0 attempts as no bound;
  the workflow asks for 3 and 5.)
\<close>

fun ExecuteActivity ::
  "nat \<Rightarrow> (nat \<Rightarrow> Host) \<Rightarrow> string \<Rightarrow> (Host \<Rightarrow> Database \<Rightarrow> (string + 'a) \<times> Database) \<Rightarrow> nat
   \<Rightarrow> Database \<Rightarrow> (string + 'a) \<times> Database list" where
  "ExecuteActivity 0 hosts name act k db = (Inl ''activity not attempted'', [])"
| "ExecuteActivity (Suc n) hosts name act k db =
     (case (if name \<in> set registeredActivities then act (hosts k) db
            else (Inl (''unable to find activityType='' @ name), db)) of
        (Inr v, db') \<Rightarrow> (Inr v, [db'])
      | (Inl err, db') \<Rightarrow>
          if n = 0 then (Inl err, [db'])
          else (case ExecuteActivity n hosts name act (Suc k) db' of
                  (r, tr) \<Rightarrow> (r, db' # tr)))"

text \<open>
  A run's history: the Catalog Store when the run starts and after every activity
  attempt since, oldest first; the store now is the last entry.
\<close>

definition execute ::
  "nat \<Rightarrow> (nat \<Rightarrow> Host) \<Rightarrow> string \<Rightarrow> (Host \<Rightarrow> Database \<Rightarrow> (string + 'a) \<times> Database)
   \<Rightarrow> Database list \<Rightarrow> (string + 'a) \<times> Database list" where
  "execute attempts hosts name act hist =
     (case ExecuteActivity attempts hosts name act 0 (last hist) of
        (r, tr) \<Rightarrow> (r, hist @ tr))"

definition updateVideoStatus ::
  "(nat \<Rightarrow> Host) \<Rightarrow> string \<Rightarrow> string \<Rightarrow> Database list \<Rightarrow> (string + unit) \<times> Database list" where
  \<comment> \<open>Retry policy of the helper: \<open>MaximumAttempts: 5\<close>.  The activity is the function
      literal in the helper's body, which Go names \<open>updateVideoStatus.func1\<close> and the
      runtime \<open>func1\<close>.\<close>
  "updateVideoStatus hosts videoID status hist =
     execute 5 hosts ''func1'' (statusActivity videoID status) hist"

text \<open>
  \<open>TranscodeWorkflow\<close>; \<open>env n k\<close> is what the \<open>k\<close>-th attempt of the \<open>n\<close>-th
  activity the run schedules meets.  The stages run under \<open>MaximumAttempts: 3\<close>.
  The result is the workflow's \<open>(string, error)\<close> and the run's history.
\<close>

definition TranscodeWorkflow ::
  "(nat \<Rightarrow> nat \<Rightarrow> Host) \<Rightarrow> FFmpeg \<Rightarrow> TranscodeParams \<Rightarrow> Database
   \<Rightarrow> (string + string) \<times> Database list" where
  "TranscodeWorkflow env f params db =
     (case updateVideoStatus (env 0) (pVideoID params) ''processing'' [db] of
        (Inl err, h0) \<Rightarrow> (Inl err, h0)
      | (Inr _, h0) \<Rightarrow>
     (case execute 3 (env 1) ''DownloadVideoActivity''
             (\<lambda>h. DownloadVideoActivity h params) h0 of
        (Inl err, h1) \<Rightarrow>
          (Inl err, snd (updateVideoStatus (env 2) (pVideoID params) ''error'' h1))
      | (Inr downloadResult, h1) \<Rightarrow>
     (case execute 3 (env 2) ''ExtractMetadataActivity''
             (\<lambda>h. ExtractMetadataActivity h f downloadResult) h1 of
        (Inl err, h2) \<Rightarrow>
          (Inl err, snd (updateVideoStatus (env 3) (pVideoID params) ''error'' h2))
      | (Inr metadataResult, h2) \<Rightarrow>
     (case execute 3 (env 3) ''TranscodeVideoActivity''
             (\<lambda>h. TranscodeVideoActivity h f params) h2 of
        (Inl err, h3) \<Rightarrow>
          (Inl err, snd (updateVideoStatus (env 4) (pVideoID params) ''error'' h3))
      | (Inr transcodeResult, h3) \<Rightarrow>
     (case execute 3 (env 4) ''CleanupActivity''
             (\<lambda>h. CleanupActivity h (LocalPath downloadResult)) h3 of
        (_, h4) \<Rightarrow>
     (case updateVideoStatus (env 5) (pVideoID params) ''completed'' h4 of
        (Inl err, h5) \<Rightarrow> (Inl err, h5)
      | (Inr _, h5) \<Rightarrow>
          (Inr (''Transcoding completed for '' @ pVideoID params), h5)))))))"



subsection \<open>The Object Store's signer and the cache\<close>

text \<open>
  \<open>time.Duration\<close> counts nanoseconds.  \<open>Presign\<close> is the S3 client's
  \<open>req.Presign(expiration)\<close> for the object's GET request.
\<close>

type_synonym duration = int

definition Hour :: duration where
  "Hour = 3600000000000"

record StorageService =
  Presign :: "string \<Rightarrow> duration \<Rightarrow> string + string"

definition GetSignedURL :: "StorageService \<Rightarrow> string \<Rightarrow> duration \<Rightarrow> string + string" where
  "GetSignedURL s objectKey expiration =
     (case Presign s objectKey expiration of
        Inl err \<Rightarrow> Inl (''failed to sign request: '' @ err)
      | Inr url \<Rightarrow> Inr url)"

text \<open>
  The Redis client: \<open>Get(ctx, key).Result()\<close> gives the value, the error
  \<open>redis.Nil\<close> when the key is not there, or the connection's error.
\<close>

record Redis =
  connected :: bool
  entries :: "string \<rightharpoonup> string"

definition Redis_Get :: "Redis \<Rightarrow> string \<Rightarrow> string + string" where
  "Redis_Get rd key =
     (if \<not> connected rd then Inl ''dial tcp: connection refused''
      else case entries rd key of
             None \<Rightarrow> Inl ''redis: nil''
           | Some v \<Rightarrow> Inr v)"

subsection \<open>The streamer's handlers (cmd/streamer)\<close>

text \<open>
  What a handler writes: a body with its \<open>Content-Type\<close> (\<open>w.Write\<close>), a redirect
  (\<open>http.Redirect\<close>), an error (\<open>http.Error\<close>), or a value handed to the JSON
  encoder.
\<close>

datatype 'a Response =
    Served string string
  | Redirect string nat
  | Error string nat
  | Json 'a

definition StatusTemporaryRedirect :: nat where
  "StatusTemporaryRedirect = 307"

definition StatusNotFound :: nat where
  "StatusNotFound = 404"

definition StatusInternalServerError :: nat where
  "StatusInternalServerError = 500"

definition isM3U8File :: "string \<Rightarrow> bool" where
  "isM3U8File filename =
     (length filename > 5 \<and> drop (length filename - 5) filename = ''.m3u8'')"

definition ServeHLSFile :: "Redis \<Rightarrow> StorageService \<Rightarrow> string \<Rightarrow> string \<Rightarrow> 'a Response" where
  \<comment> \<open>\<open>cachedContent\<close> is the empty string when \<open>Result()\<close> gives an error.\<close>
  "ServeHLSFile rd st videoID filename =
     (let objectKey = ''videos/'' @ videoID @ ''/hls/'' @ filename;
          cacheKey = ''hls:'' @ objectKey;
          result = Redis_Get rd cacheKey;
          cachedContent = (case result of Inr v \<Rightarrow> v | Inl _ \<Rightarrow> []);
          errIsNil = (case result of Inr _ \<Rightarrow> True | Inl _ \<Rightarrow> False)
      in if errIsNil \<and> cachedContent \<noteq> []
         then Served (if isM3U8File filename then ''application/x-mpegURL''
                      else ''video/MP2T'') cachedContent
         else (case GetSignedURL st objectKey (1 * Hour) of
                 Inl err \<Rightarrow> Error (''Error generating URL: '' @ err) StatusInternalServerError
               | Inr signedURL \<Rightarrow> Redirect signedURL StatusTemporaryRedirect))"

definition ServeDASHFile :: "Redis \<Rightarrow> StorageService \<Rightarrow> string \<Rightarrow> string \<Rightarrow> 'a Response" where
  "ServeDASHFile rd st videoID filename =
     (let objectKey = ''videos/'' @ videoID @ ''/dash/'' @ filename;
          cacheKey = ''dash:'' @ objectKey;
          result = Redis_Get rd cacheKey;
          cachedContent = (case result of Inr v \<Rightarrow> v | Inl _ \<Rightarrow> []);
          errIsNil = (case result of Inr _ \<Rightarrow> True | Inl _ \<Rightarrow> False)
      in if errIsNil \<and> cachedContent \<noteq> []
         then Served (if filename = ''manifest.mpd'' then ''application/dash+xml''
                      else ''video/mp4'') cachedContent
         else (case GetSignedURL st objectKey (1 * Hour) of
                 Inl err \<Rightarrow> Error (''Error generating URL: '' @ err) StatusInternalServerError
               | Inr signedURL \<Rightarrow> Redirect signedURL StatusTemporaryRedirect))"

definition GetVideoStreams :: "PgEnv \<Rightarrow> string \<Rightarrow> Database \<Rightarrow> string + VideoStream list" where
  \<comment> \<open>\<open>WHERE video_id = $1 ORDER BY resolution DESC\<close>, strings compared byte by byte.\<close>
  "GetVideoStreams pg videoID db =
     (if \<not> reachable pg then Inl ''failed to query video streams: connection failed''
      else Inr (rowsRead pg
                  (rev (sort_key (\<lambda>s. (Resolution s, tiebreak pg (StreamID s)))
                     (filter (\<lambda>s. VideoID s = videoID) (video_streams db))))))"

fun contains :: "string list \<Rightarrow> string \<Rightarrow> bool" where
  "contains [] value = False"
| "contains (item # rest) value = (if item = value then True else contains rest value)"

text \<open>
  The loop of \<open>GetVideoInfo\<close> over the streams, on its three variables \<open>formats\<close>,
  \<open>hlsMaster\<close> and \<open>dashMaster\<close>.
\<close>

fun masters ::
  "StorageService \<Rightarrow> string \<Rightarrow> VideoStream list \<Rightarrow> string list \<times> string \<times> string
   \<Rightarrow> string list \<times> string \<times> string" where
  "masters st videoID [] acc = acc"
| "masters st videoID (stream # rest) (formats, hlsMaster, dashMaster) =
     (let formats' = (if \<not> contains formats (Format stream) then formats @ [Format stream]
                      else formats)
      in if Format stream = ''hls'' \<and> Resolution stream = ''1920x1080''
         then (case GetSignedURL st (''videos/'' @ videoID @ ''/hls/master.m3u8'') (24 * Hour) of
                 Inr url \<Rightarrow> masters st videoID rest (formats', url, dashMaster)
               | Inl _ \<Rightarrow> masters st videoID rest (formats', hlsMaster, dashMaster))
         else if Format stream = ''dash'' \<and> Resolution stream = ''1920x1080''
         then (case GetSignedURL st (''videos/'' @ videoID @ ''/dash/manifest.mpd'') (24 * Hour) of
                 Inr url \<Rightarrow> masters st videoID rest (formats', hlsMaster, url)
               | Inl _ \<Rightarrow> masters st videoID rest (formats', hlsMaster, dashMaster))
         else masters st videoID rest (formats', hlsMaster, dashMaster))"

text \<open>\<open>VideoStreamInfo\<close>, the detail response; \<open>siVideoID\<close> is its field \<open>VideoID\<close>.\<close>

record VideoStreamInfo =
  siVideoID :: string
  siTitle :: string
  siDuration :: real
  siStatus :: string
  siFormats :: "string list"
  HLSMaster :: string
  DASHMaster :: string
  siStreams :: "VideoStream list"
  siCreatedAt :: time

definition GetVideoInfo ::
  "(nat \<Rightarrow> PgEnv) \<Rightarrow> StorageService \<Rightarrow> Database \<Rightarrow> string \<Rightarrow> VideoStreamInfo Response" where
  "GetVideoInfo pg st db videoID =
     (case GetVideo (pg 0) videoID db of
        Inl err \<Rightarrow> Error (''Error retrieving video: '' @ err) StatusNotFound
      | Inr video \<Rightarrow>
     (case GetVideoStreams (pg 1) videoID db of
        Inl err \<Rightarrow> Error (''Error retrieving video streams: '' @ err) StatusInternalServerError
      | Inr streams \<Rightarrow>
     (case masters st videoID streams ([], [], []) of
        (formats, hlsMaster, dashMaster) \<Rightarrow>
          Json \<lparr>siVideoID = videoID,
                siTitle = Title video,
                siDuration = Duration video,
                siStatus = ProcessingState video,
                siFormats = formats,
                HLSMaster = hlsMaster,
                DASHMaster = dashMaster,
                siStreams = streams,
                siCreatedAt = CreatedAt video\<rparr>)))"

definition Database_ListVideos :: "PgEnv \<Rightarrow> int \<Rightarrow> int \<Rightarrow> Database \<Rightarrow> string + Video list" where
  \<comment> \<open>\<open>ORDER BY created_at DESC LIMIT $1 OFFSET $2\<close>.  The server refuses a negative
      \<open>OFFSET\<close> or \<open>LIMIT\<close> when it executes the statement, after \<open>pool.Query\<close> has
      returned: the result has no row then.  The empty list is Go's nil slice.\<close>
  "Database_ListVideos pg limit offset db =
     (if \<not> reachable pg then Inl ''failed to query videos: connection failed''
      else Inr (rowsRead pg
                  (if offset < 0 \<or> limit < 0 then []
                   else take (nat limit) (drop (nat offset)
                          (rev (sort_key (\<lambda>v. (CreatedAt v, tiebreak pg (ID v))) (videos db)))))))"

definition queryInt :: "(string \<Rightarrow> int option) \<Rightarrow> string \<Rightarrow> int \<Rightarrow> int" where
  \<comment> \<open>\<open>if q != "" { fmt.Sscanf(q, "%d", &x) }\<close>: \<open>x\<close> keeps its value unless the
      scan, the library's and taken as \<open>scan\<close>, yields an integer that fits Go's
      64-bit \<open>int\<close>.\<close>
  "queryInt scan q x =
     (if q \<noteq> []
      then (case scan q of
              Some n \<Rightarrow> if - (2 ^ 63) \<le> n \<and> n < 2 ^ 63 then n else x
            | None \<Rightarrow> x)
      else x)"

record ListResponse =
  lrVideos :: "Video list"
  lrLimit :: int
  lrOffset :: int

definition StreamerHandler_ListVideos ::
  "PgEnv \<Rightarrow> (string \<Rightarrow> int option) \<Rightarrow> Database \<Rightarrow> string \<Rightarrow> string \<Rightarrow> ListResponse Response" where
  \<comment> \<open>\<open>limitQ\<close> and \<open>offsetQ\<close> are the query's values of \<open>limit\<close> and \<open>offset\<close>,
      empty when absent.\<close>
  "StreamerHandler_ListVideos pg scan db limitQ offsetQ =
     (let limit = queryInt scan limitQ 10;
          offset = queryInt scan offsetQ 0
      in case Database_ListVideos pg limit offset db of
           Inl err \<Rightarrow> Error (''Error retrieving videos: '' @ err) StatusInternalServerError
         | Inr vs \<Rightarrow> Json \<lparr>lrVideos = vs, lrLimit = limit, lrOffset = offset\<rparr>)"


subsection \<open>A concrete run\<close>

text \<open>
  A host on which everything outside the process works, with the two-entry ladder
  of the specification's first example, and an upload to run the pipeline on.
\<close>

definition workingHost :: Host where
  "workingHost = \<lparr>MkdirTemp = (\<lambda>d p. Inr (''/tmp/'' @ p)),
            TempDir = ''/tmp'',
            Stat = (\<lambda>_. Inr 1000),
            RemoveAll = (\<lambda>_. Inr ()),
            Now = (\<lambda>_. 1),
            DownloadFile = (\<lambda>_ _. Inr ()),
            Exec = (\<lambda>_ _. \<lparr>runError = None, stdout = [], stderr = []\<rparr>),
            UnmarshalResolutions = Inr [\<lparr>Width = 1920, Height = 1080, ResBitrate = ''5000k''\<rparr>,
                                        \<lparr>Width = 1280, Height = 720, ResBitrate = ''2500k''\<rparr>],
            Pg = (\<lambda>_. \<lparr>reachable = True, NOW = 2, fetched = None, tiebreak = (\<lambda>_. 0)\<rparr>),
            Base = (\<lambda>p. p),
            Dir = (\<lambda>p. p),
            Join = (\<lambda>a b. a @ ''/'' @ b),
            ParseFloat = (\<lambda>_. 0)\<rparr>"

definition upload :: TranscodeParams where
  "upload = \<lparr>pVideoID = ''v1'', pObjectKey = ''uploads/v1/v1.mp4'',
              pFilename = ''movie.mp4'', pContentType = ''video/mp4''\<rparr>"

definition encoder :: FFmpeg where
  "encoder = \<lparr>BinaryPath = ''ffmpeg'', ThreadCount = 4, Preset = ''medium''\<rparr>"

definition emptyStore :: Database where
  "emptyStore = \<lparr>videos = [], video_streams = []\<rparr>"

text \<open>A store in which the Video of the upload already has a row, its processing finished.\<close>

definition storeWithRow :: Database where
  "storeWithRow = \<lparr>videos = [\<lparr>ID = ''v1'', Title = ''Sample Video'', OriginalName = ''sample.mp4'',
                      OriginalPath = ''uploads/v1/sample.mp4'',
                      ProcessingState = ''completed'', Duration = 0, Size = 15728640,
                      ContentType = ''video/mp4'', CreatedAt = 0, UpdatedAt = 0\<rparr>],
          video_streams = []\<rparr>"

text \<open>The key and the updated columns of an upsert into \<open>video_streams\<close>.\<close>

definition streamKey :: "VideoStream \<Rightarrow> string \<times> string \<times> string" where
  "streamKey r = (VideoID r, Resolution r, Format r)"

definition samePayload :: "VideoStream \<Rightarrow> VideoStream \<Rightarrow> bool" where
  "samePayload s r = (Path r = Path s \<and> StreamSize r = StreamSize s \<and> SegmentSize r = SegmentSize s)"

text \<open>A rendition of the concrete upload, and a database call that is answered.\<close>

definition streamA :: VideoStream where
  "streamA = \<lparr>StreamID = ''v1-v0'', VideoID = ''v1'', Resolution = ''1920x1080'',
               Bitrate = ''5000k'', Format = ''hls'', Path = ''videos/v1/hls/v1_v0.m3u8'',
               StreamSize = 0, SegmentSize = 10, StreamCreatedAt = 1\<rparr>"

definition pgUp :: PgEnv where
  "pgUp = \<lparr>reachable = True, NOW = 2, fetched = None, tiebreak = (\<lambda>_. 0)\<rparr>"

text \<open>
  The result of a Download of the concrete upload, and a store whose row for the
  Video holds a duration that some other writer has put there.
\<close>

definition downloaded :: DownloadResult where
  "downloaded = \<lparr>dVideoID = ''v1'', LocalPath = ''/tmp/transcode-v1/uploads/v1/v1.mp4'',
                  dOriginalPath = ''uploads/v1/v1.mp4''\<rparr>"

definition storeWithDuration :: Database where
  "storeWithDuration =
     \<lparr>videos = [\<lparr>ID = ''v1'', Title = ''Sample Video'', OriginalName = ''sample.mp4'',
                  OriginalPath = ''uploads/v1/sample.mp4'',
                  ProcessingState = ''downloading'', Duration = 120.5, Size = 15728640,
                  ContentType = ''video/mp4'', CreatedAt = 0, UpdatedAt = 0\<rparr>],
      video_streams = []\<rparr>"

text \<open>
  What the read path answers when it does not serve from the cache: a redirect to the
  object's URL signed for one hour, or the internal error when signing fails.
\<close>

definition signedRedirect :: "StorageService \<Rightarrow> string \<Rightarrow> 'a Response" where
  "signedRedirect st objectKey =
     (case Presign st objectKey (1 * Hour) of
        Inl err \<Rightarrow> Error (''Error generating URL: failed to sign request: '' @ err)
                     StatusInternalServerError
      | Inr url \<Rightarrow> Redirect url StatusTemporaryRedirect)"

text \<open>
  A signer that answers and one that fails; a cache that holds a playlist, a playlist
  named by its extension alone, an empty value and a playlist under the DASH prefix;
  and a cache that holds nothing.
\<close>

definition signer :: StorageService where
  "signer = \<lparr>Presign = (\<lambda>objectKey expiration.
      Inr (''signed:'' @ objectKey @ ''?expires='' @ Sprintf_d (expiration div 1000000000)))\<rparr>"

definition failingSigner :: StorageService where
  "failingSigner = \<lparr>Presign = (\<lambda>objectKey expiration. Inl ''signing failed'')\<rparr>"

definition warmCache :: Redis where
  "warmCache = \<lparr>connected = True,
                 entries = [''hls:videos/v1/hls/v1_v0.m3u8'' \<mapsto> ''#EXTM3U'',
                            ''hls:videos/v1/hls/.m3u8'' \<mapsto> ''#EXTM3U'',
                            ''hls:videos/v1/hls/empty.ts'' \<mapsto> [],
                            ''dash:videos/v1/dash/index.m3u8'' \<mapsto> ''#EXTM3U'']\<rparr>"

definition coldCache :: Redis where
  "coldCache = \<lparr>connected = True, entries = Map.empty\<rparr>"

text \<open>
  The master URL of the detail response: the object's URL signed for 24 hours, empty
  when signing fails; and whether a Video has a rendition of a format and resolution.
\<close>

definition masterURL :: "StorageService \<Rightarrow> string \<Rightarrow> string" where
  "masterURL st objectKey =
     (case Presign st objectKey (24 * Hour) of Inr url \<Rightarrow> url | Inl _ \<Rightarrow> [])"

definition hasRendition :: "Database \<Rightarrow> string \<Rightarrow> string \<Rightarrow> string \<Rightarrow> bool" where
  "hasRendition db videoID fmt res =
     (\<exists>s\<in>set (video_streams db). VideoID s = videoID \<and> Format s = fmt \<and> Resolution s = res)"

text \<open>
  The rows of a listing: all Videos, newest first, Videos of the same creation time
  in the order the server chooses.
\<close>

definition newestFirst :: "(string \<Rightarrow> nat) \<Rightarrow> Video list \<Rightarrow> Video list" where
  "newestFirst tie rows = rev (sort_key (\<lambda>v. (CreatedAt v, tie (ID v))) rows)"

text \<open>
  The store after both renditions of the concrete upload are published, and a scan
  that never yields an integer.
\<close>

definition streamB :: VideoStream where
  "streamB = \<lparr>StreamID = ''v1-v1'', VideoID = ''v1'', Resolution = ''1280x720'',
               Bitrate = ''2500k'', Format = ''hls'', Path = ''videos/v1/hls/v1_v1.m3u8'',
               StreamSize = 0, SegmentSize = 10, StreamCreatedAt = 1\<rparr>"

definition publishedStore :: Database where
  "publishedStore = storeWithRow\<lparr>video_streams := [streamA, streamB]\<rparr>"

definition noScan :: "string \<Rightarrow> int option" where
  "noScan q = None"

text \<open>The two-entry ladder of the working host.\<close>

definition ladder2 :: "Resolution_cfg list" where
  "ladder2 = [\<lparr>Width = 1920, Height = 1080, ResBitrate = ''5000k''\<rparr>,
              \<lparr>Width = 1280, Height = 720, ResBitrate = ''2500k''\<rparr>]"

section \<open>Properties\<close>

subsection \<open>The Catalog Store\<close>

lemma map_setStatus_absent:
  "find (\<lambda>v. ID v = vid) rows = None \<Longrightarrow> map (setStatus vid s t) rows = rows"
  by (induction rows) (auto simp: setStatus_def split: if_splits)

lemma UpdateVideoStatus_absent:
  "reachable pg \<Longrightarrow> \<not> hasVideo db vid \<Longrightarrow> UpdateVideoStatus pg vid s db = Inr db"
  by (simp add: UpdateVideoStatus_def hasVideo_def map_setStatus_absent)




lemma AddVideoStream_videos:
  "AddVideoStream pg s db = Inr db' \<Longrightarrow> videos db' = videos db"
  by (auto simp: AddVideoStream_def split: if_splits)

lemma recordStreams_videos:
  "recordStreams h params i rs acc db = (r, db') \<Longrightarrow> videos db' = videos db"
proof (induction rs arbitrary: i acc db)
  case Nil
  then show ?case by simp
next
  case (Cons res rest)
  show ?case
  proof (cases "AddVideoStream (Pg h (2 + i)) (streamRow h params i res) db")
    case (Inl e)
    with Cons.prems show ?thesis by simp
  next
    case (Inr d)
    with Cons.prems have "videos db' = videos d"
      using Cons.IH[of "Suc i" "acc @ [streamInfo params i res]" d] by simp
    with Inr show ?thesis by (simp add: AddVideoStream_videos)
  qed
qed






lemma CleanupActivity_state: "CleanupActivity h p d = (r, d') \<Longrightarrow> d' = d"
  by (simp add: CleanupActivity_def)

subsection \<open>The pipeline's state machine\<close>




lemma func1_unregistered: "''func1'' \<notin> set registeredActivities"
  by (simp add: registeredActivities_def)

lemma ExecuteActivity_unregistered:
  assumes "name \<notin> set registeredActivities"
  shows "ExecuteActivity (Suc n) hosts name act k db =
           (Inl (''unable to find activityType='' @ name), replicate (Suc n) db)"
  using assms by (induction n arbitrary: k) simp_all

lemma updateVideoStatus_unregistered:
  "updateVideoStatus hosts videoID status hist =
     (Inl ''unable to find activityType=func1'', hist @ replicate 5 (last hist))"
proof -
  have "ExecuteActivity (Suc 4) hosts ''func1'' (statusActivity videoID status) 0 (last hist) =
      (Inl (''unable to find activityType='' @ ''func1''), replicate (Suc 4) (last hist))"
    using func1_unregistered by (rule ExecuteActivity_unregistered)
  then show ?thesis
    by (simp add: updateVideoStatus_def execute_def eval_nat_numeral)
qed

lemma TranscodeWorkflow_stops:
  "TranscodeWorkflow env f params db =
     (Inl ''unable to find activityType=func1'', replicate 6 db)"
  by (simp add: TranscodeWorkflow_def updateVideoStatus_unregistered eval_nat_numeral)






subsection \<open>Publishing a Rendition\<close>

lemma sameKey_streamKey: "sameKey s r \<longleftrightarrow> streamKey r = streamKey s"
  by (auto simp: sameKey_def streamKey_def)

lemma streamKey_excluded: "streamKey (excluded s r) = streamKey r"
  by (simp add: excluded_def streamKey_def)

lemma map_streamKey_excluded: "map streamKey (map (excluded s) rows) = map streamKey rows"
  by (simp add: streamKey_excluded)

lemma uniqueStreams_streamKey: "uniqueStreams db \<longleftrightarrow> distinct (map streamKey (video_streams db))"
  by (simp add: uniqueStreams_def streamKey_def[abs_def])

lemma find_None_streamKey:
  "find (sameKey s) rows = None \<longleftrightarrow> streamKey s \<notin> streamKey ` set rows"
  by (auto simp: find_None_iff sameKey_streamKey image_iff)

lemma filter_distinct_key:
  "distinct (map k xs) \<Longrightarrow> c \<in> k ` set xs \<Longrightarrow> \<exists>x. filter (\<lambda>r. k r = c) xs = [x]"
proof (induction xs)
  case Nil
  then show ?case by simp
next
  case (Cons a xs)
  show ?case
  proof (cases "k a = c")
    case True
    with Cons.prems have "\<forall>r\<in>set xs. k r \<noteq> c" by (auto simp: image_iff)
    then have "filter (\<lambda>r. k r = c) xs = []" by (simp add: filter_empty_conv)
    with True show ?thesis by simp
  next
    case False
    with Cons show ?thesis by auto
  qed
qed

lemma AddVideoStream_result:
  assumes "AddVideoStream pg s db = Inr db1"
  shows "videos db1 = videos db \<and>
         (video_streams db1 = map (excluded s) (video_streams db) \<and>
            streamKey s \<in> streamKey ` set (video_streams db) \<or>
          video_streams db1 = video_streams db @ [s] \<and>
            streamKey s \<notin> streamKey ` set (video_streams db))"
  using assms[symmetric] by (auto simp: AddVideoStream_def find_None_streamKey split: if_splits)

lemma AddVideoStream_conflict:
  assumes "reachable pg" "streamKey s \<in> streamKey ` set (video_streams db)"
  shows "AddVideoStream pg s db = Inr (db\<lparr>video_streams := map (excluded s) (video_streams db)\<rparr>)"
  using assms by (simp add: AddVideoStream_def find_None_streamKey)

lemma AddVideoStream_unique:
  assumes "uniqueStreams db" "AddVideoStream pg s db = Inr db1"
  shows "uniqueStreams db1 \<and> streamKey s \<in> streamKey ` set (video_streams db1)"
proof -
  from AddVideoStream_result[OF assms(2)] consider
    (upd) "video_streams db1 = map (excluded s) (video_streams db)"
      "streamKey s \<in> streamKey ` set (video_streams db)" |
    (ins) "video_streams db1 = video_streams db @ [s]"
      "streamKey s \<notin> streamKey ` set (video_streams db)" by blast
  then show ?thesis
  proof cases
    case upd
    have m: "map streamKey (video_streams db1) = map streamKey (video_streams db)"
      unfolding upd(1) by (rule map_streamKey_excluded)
    have "streamKey ` set (video_streams db1) = set (map streamKey (video_streams db1))"
      by simp
    also have "\<dots> = streamKey ` set (video_streams db)" unfolding m by simp
    finally show ?thesis using assms(1) upd(2) m by (simp add: uniqueStreams_streamKey)
  next
    case ins
    with assms(1) show ?thesis by (simp add: uniqueStreams_streamKey)
  qed
qed

lemma excluded_payload: "sameKey s r \<Longrightarrow> samePayload s (excluded s r)"
  by (simp add: excluded_def samePayload_def)

lemma excluded_same: "sameKey s r \<longrightarrow> samePayload s r \<Longrightarrow> excluded s r = r"
  by (auto simp: excluded_def samePayload_def)

lemma AddVideoStream_payload:
  assumes "AddVideoStream pg s db = Inr db1"
  shows "\<forall>r\<in>set (video_streams db1). sameKey s r \<longrightarrow> samePayload s r"
proof
  fix r assume r: "r \<in> set (video_streams db1)"
  show "sameKey s r \<longrightarrow> samePayload s r"
  proof
    assume k: "sameKey s r"
    from AddVideoStream_result[OF assms] consider
      (upd) "video_streams db1 = map (excluded s) (video_streams db)" |
      (ins) "video_streams db1 = video_streams db @ [s]"
        "streamKey s \<notin> streamKey ` set (video_streams db)" by blast
    then show "samePayload s r"
    proof cases
      case upd
      with r obtain r0 where r0: "r0 \<in> set (video_streams db)" "r = excluded s r0" by auto
      with k have "sameKey s r0" by (simp add: sameKey_streamKey streamKey_excluded)
      with r0 show ?thesis by (simp add: excluded_payload)
    next
      case ins
      from k have "streamKey r = streamKey s" by (simp add: sameKey_streamKey)
      with ins r have "r = s" by (auto simp: image_iff)
      then show ?thesis by (simp add: samePayload_def)
    qed
  qed
qed

text \<open>
  C2.  Publishing a Rendition is idempotent.  On a table that honours
  \<open>UNIQUE(video_id, resolution, format)\<close>, after one successful \<open>AddVideoStream\<close>
  of a stream, a second one for the same (video id, resolution, format) succeeds
  whenever the database answers; it adds no row, leaves the table unique, leaves
  exactly one row for the key, and that row carries the path, size and segment size
  of the second write; when these three are the ones already written the store is
  unchanged.
\<close>

theorem AddVideoStream_idempotent:
  assumes uniq: "uniqueStreams db"
    and first: "AddVideoStream pg1 s db = Inr db1"
    and again: "reachable pg2" "sameKey s s'"
  shows "\<exists>db2. AddVideoStream pg2 s' db1 = Inr db2 \<and>
           length (video_streams db2) = length (video_streams db1) \<and>
           uniqueStreams db2 \<and>
           (\<exists>row. streamsWithKey db2 s = [row] \<and> samePayload s' row) \<and>
           (samePayload s s' \<longrightarrow> db2 = db1)"
proof -
  let ?rows = "video_streams db1"
  let ?db2 = "db1\<lparr>video_streams := map (excluded s') ?rows\<rparr>"
  have k: "streamKey s' = streamKey s" using again(2) by (simp add: sameKey_streamKey)
  have u1: "uniqueStreams db1" and in1: "streamKey s \<in> streamKey ` set ?rows"
    using AddVideoStream_unique[OF uniq first] by simp_all
  have sk: "sameKey s' = sameKey s"
    by (rule ext) (simp add: sameKey_streamKey k)
  have run2: "AddVideoStream pg2 s' db1 = Inr ?db2"
    using again(1) in1 k by (simp add: AddVideoStream_conflict)
  have len: "length (video_streams ?db2) = length ?rows" by simp
  have m: "map streamKey (video_streams ?db2) = map streamKey ?rows"
    by (simp add: streamKey_excluded)
  have u2: "uniqueStreams ?db2"
    using u1 unfolding uniqueStreams_streamKey m .
  have "streamKey s \<in> streamKey ` set (video_streams ?db2)"
  proof -
    from in1 obtain r where r: "r \<in> set ?rows" "streamKey r = streamKey s"
      by (auto simp: image_iff)
    then have "excluded s' r \<in> set (video_streams ?db2)" by simp
    moreover have "streamKey (excluded s' r) = streamKey s"
      using r(2) by (simp add: streamKey_excluded)
    ultimately show ?thesis by (metis image_eqI)
  qed
  with u2 obtain row where row: "filter (\<lambda>r. streamKey r = streamKey s) (video_streams ?db2) = [row]"
    using filter_distinct_key[of streamKey "video_streams ?db2" "streamKey s"]
    unfolding uniqueStreams_streamKey by blast
  then have f: "streamsWithKey ?db2 s = [row]"
    by (simp add: streamsWithKey_def sameKey_streamKey[abs_def])
  have "row \<in> set (filter (\<lambda>r. streamKey r = streamKey s) (video_streams ?db2))"
    unfolding row by simp
  then obtain r0 where r0: "r0 \<in> set ?rows" "row = excluded s' r0" "streamKey row = streamKey s"
    by auto
  then have "sameKey s' r0" by (simp add: sameKey_streamKey streamKey_excluded k)
  with r0(2) have pay: "samePayload s' row" by (simp add: excluded_payload)
  have same: "?db2 = db1" if sp: "samePayload s s'"
  proof -
    have "excluded s' r = r" if "r \<in> set ?rows" for r
    proof (rule excluded_same, rule impI)
      assume "sameKey s' r"
      then have "sameKey s r" by (simp add: sk)
      with AddVideoStream_payload[OF first] that have "samePayload s r" by blast
      with sp show "samePayload s' r" by (simp add: samePayload_def)
    qed
    then have "map (excluded s') ?rows = ?rows" by (simp add: map_idI)
    then show ?thesis by simp
  qed
  from run2 len u2 f pay same show ?thesis by blast
qed

text \<open>Publishing the first rendition of the concrete upload twice, the second time at a later instant.\<close>

theorem AddVideoStream_idempotent_witness:
  "AddVideoStream pgUp streamA storeWithRow =
     Inr (storeWithRow\<lparr>video_streams := [streamA]\<rparr>) \<and>
   AddVideoStream pgUp (streamA\<lparr>StreamCreatedAt := 7\<rparr>) (storeWithRow\<lparr>video_streams := [streamA]\<rparr>) =
     Inr (storeWithRow\<lparr>video_streams := [streamA]\<rparr>) \<and>
   streamsWithKey (storeWithRow\<lparr>video_streams := [streamA]\<rparr>) streamA = [streamA]"
proof -
  let ?d1 = "storeWithRow\<lparr>video_streams := [streamA]\<rparr>"
  let ?s' = "streamA\<lparr>StreamCreatedAt := 7\<rparr>"
  have u: "uniqueStreams storeWithRow" by (simp add: uniqueStreams_def storeWithRow_def)
  have first: "AddVideoStream pgUp streamA storeWithRow = Inr ?d1"
    by (simp add: AddVideoStream_def pgUp_def storeWithRow_def hasVideo_def streamA_def)
  have r: "reachable pgUp" by (simp add: pgUp_def)
  have k: "sameKey streamA ?s'" by (simp add: sameKey_def)
  have p: "samePayload streamA ?s'" by (simp add: samePayload_def)
  from AddVideoStream_idempotent[OF u first r k] p
  have "AddVideoStream pgUp ?s' ?d1 = Inr ?d1" by auto
  moreover have "streamsWithKey ?d1 streamA = [streamA]"
    by (simp add: streamsWithKey_def sameKey_def)
  ultimately show ?thesis using first by simp
qed

subsection \<open>Status writes and the creation of the row\<close>

lemma map_ID_setStatus: "map ID (map (setStatus vid s t) rows) = map ID rows"
  by (induction rows) (auto simp: setStatus_def)

lemma UpdateVideoStatus_ids:
  "UpdateVideoStatus pg vid s d = Inr d' \<Longrightarrow> map ID (videos d') = map ID (videos d)"
  using map_ID_setStatus[of vid s "NOW pg" "videos d"]
  by (auto simp: UpdateVideoStatus_def split: if_splits)

lemma statusActivity_ids: "map ID (videos (snd (statusActivity vid s h d))) = map ID (videos d)"
  by (auto simp: statusActivity_def split: sum.splits dest: UpdateVideoStatus_ids)

lemma ExtractMetadataActivity_ids:
  "map ID (videos (snd (ExtractMetadataActivity h f dl d))) = map ID (videos d)"
  by (auto simp: ExtractMetadataActivity_def GetMediaInfo_def Let_def split: sum.splits
      dest: UpdateVideoStatus_ids)

lemma TranscodeVideoActivity_ids:
  "map ID (videos (snd (TranscodeVideoActivity h f p d))) = map ID (videos d)"
proof (cases "GetVideo (Pg h 0) (pVideoID p) d")
  case (Inl e)
  then show ?thesis by (simp add: TranscodeVideoActivity_def)
next
  case got: (Inr video)
  show ?thesis
  proof (cases "UpdateVideoStatus (Pg h 1) (pVideoID p) ''transcoding'' d")
    case (Inl e)
    with got show ?thesis by (simp add: TranscodeVideoActivity_def)
  next
    case upd: (Inr d1)
    obtain r d' where t: "TranscodeVideoActivity h f p d = (r, d')"
      by (cases "TranscodeVideoActivity h f p d")
    then have "videos d' = videos d1"
      using got upd
      by (auto simp: TranscodeVideoActivity_def Let_def split: sum.splits prod.splits
          dest: recordStreams_videos)
    with UpdateVideoStatus_ids[OF upd] t show ?thesis by simp
  qed
qed

lemma DownloadVideoActivity_creates:
  "case DownloadVideoActivity h params d of
     (Inl e, d') \<Rightarrow> d' = d
   | (Inr dl, d') \<Rightarrow> \<exists>row. d' = d\<lparr>videos := videos d @ [row]\<rparr> \<and> ID row = pVideoID params \<and>
        ProcessingState row = ''downloading'' \<and> Duration row = 0 \<and> \<not> hasVideo d (pVideoID params)"
  by (auto simp: DownloadVideoActivity_def Let_def CreateVideo_def split: sum.splits)

text \<open>
  C9.  For a video id that has no row, \<open>UpdateVideoStatus\<close> succeeds whenever the
  database answers and leaves the store as it is (the UPDATE matches no row), and so
  does the function literal of the status helper when it is run.  The workflow's
  status write does not run it: the literal is not a registered activity, each of
  the five attempts fails, the helper returns the error with the store untouched,
  and \<open>TranscodeWorkflow\<close> returns that error before Download.  No status write, and
  neither the metadata, the transcode nor the cleanup activity, adds or removes a
  row of \<open>videos\<close>; the Download activity leaves the store as it is when it fails
  and, when it succeeds, appends the one row of its Video, in state \<open>downloading\<close>,
  for an id that had none.
\<close>

theorem status_write_without_row:
  assumes absent: "\<not> hasVideo db videoID"
  shows "(reachable pg \<longrightarrow> UpdateVideoStatus pg videoID status db = Inr db) \<and>
         (reachable (Pg hs 0) \<longrightarrow> statusActivity videoID status hs db = (Inr (), db)) \<and>
         (\<exists>e. updateVideoStatus hosts videoID status [db] = (Inl e, replicate 6 db)) \<and>
         (\<exists>e. TranscodeWorkflow env fw (wp\<lparr>pVideoID := videoID\<rparr>) db = (Inl e, replicate 6 db)) \<and>
         map ID (videos (snd (statusActivity v s h d))) = map ID (videos d) \<and>
         map ID (videos (snd (ExtractMetadataActivity h f dl d))) = map ID (videos d) \<and>
         map ID (videos (snd (TranscodeVideoActivity h f p d))) = map ID (videos d) \<and>
         snd (CleanupActivity h lp d) = d \<and>
         (case DownloadVideoActivity h params d of
            (Inl e, d') \<Rightarrow> d' = d
          | (Inr dl, d') \<Rightarrow>
              \<exists>row. d' = d\<lparr>videos := videos d @ [row]\<rparr> \<and> ID row = pVideoID params \<and>
                    ProcessingState row = ''downloading'' \<and> Duration row = 0 \<and>
                    \<not> hasVideo d (pVideoID params))"
proof -
  have a: "reachable pg \<longrightarrow> UpdateVideoStatus pg videoID status db = Inr db"
    using absent by (simp add: UpdateVideoStatus_absent)
  have b: "reachable (Pg hs 0) \<longrightarrow> statusActivity videoID status hs db = (Inr (), db)"
    using absent by (simp add: statusActivity_def UpdateVideoStatus_absent)
  have c: "\<exists>e. updateVideoStatus hosts videoID status [db] = (Inl e, replicate 6 db)"
    by (simp add: updateVideoStatus_unregistered eval_nat_numeral)
  have e: "\<exists>e. TranscodeWorkflow env fw (wp\<lparr>pVideoID := videoID\<rparr>) db = (Inl e, replicate 6 db)"
    by (simp add: TranscodeWorkflow_stops)
  show ?thesis
    using a b c e statusActivity_ids[where vid = v and s = s and h = h and d = d]
      ExtractMetadataActivity_ids[where h = h and f = f and dl = dl and d = d]
      TranscodeVideoActivity_ids[where h = h and f = f and p = p and d = d]
      DownloadVideoActivity_creates[where h = h and params = params and d = d]
    by (simp add: CleanupActivity_def)
qed

text \<open>
  On the empty store: the UPDATE is a no-op, the workflow's status write fails with
  the store untouched, the run of the concrete upload ends there and no row exists
  at any point of it.
\<close>

theorem status_write_without_row_witness:
  "UpdateVideoStatus pgUp ''v1'' ''processing'' emptyStore = Inr emptyStore \<and>
   statusActivity ''v1'' ''processing'' workingHost emptyStore = (Inr (), emptyStore) \<and>
   updateVideoStatus (\<lambda>_. workingHost) ''v1'' ''processing'' [emptyStore] =
     (Inl ''unable to find activityType=func1'', replicate 6 emptyStore) \<and>
   TranscodeWorkflow (\<lambda>_ _. workingHost) encoder upload emptyStore =
     (Inl ''unable to find activityType=func1'', replicate 6 emptyStore) \<and>
   map videos (snd (TranscodeWorkflow (\<lambda>_ _. workingHost) encoder upload emptyStore)) =
     replicate 6 []"
proof -
  have absent: "\<not> hasVideo emptyStore ''v1''" by (simp add: hasVideo_def emptyStore_def)
  have r: "reachable pgUp" "reachable (Pg workingHost 0)"
    by (simp_all add: pgUp_def workingHost_def)
  have u: "upload\<lparr>pVideoID := ''v1''\<rparr> = upload" by (simp add: upload_def)
  note t = status_write_without_row[OF absent, where pg = pgUp and status = "''processing''"
      and hs = workingHost and hosts = "\<lambda>_. workingHost" and env = "\<lambda>_ _. workingHost"
      and fw = encoder and wp = upload]
  from t r have a: "UpdateVideoStatus pgUp ''v1'' ''processing'' emptyStore = Inr emptyStore"
    "statusActivity ''v1'' ''processing'' workingHost emptyStore = (Inr (), emptyStore)"
    by blast+
  from t have "\<exists>e. updateVideoStatus (\<lambda>_. workingHost) ''v1'' ''processing'' [emptyStore] =
      (Inl e, replicate 6 emptyStore)" by blast
  then obtain e1 where
    b: "updateVideoStatus (\<lambda>_. workingHost) ''v1'' ''processing'' [emptyStore] =
          (Inl e1, replicate 6 emptyStore)" ..
  from t have "\<exists>e. TranscodeWorkflow (\<lambda>_ _. workingHost) encoder (upload\<lparr>pVideoID := ''v1''\<rparr>)
      emptyStore = (Inl e, replicate 6 emptyStore)" by blast
  then obtain e2 where
    c: "TranscodeWorkflow (\<lambda>_ _. workingHost) encoder upload emptyStore =
          (Inl e2, replicate 6 emptyStore)" unfolding u ..
  have "e1 = ''unable to find activityType=func1''"
    using b by (simp add: updateVideoStatus_unregistered)
  moreover have "e2 = ''unable to find activityType=func1''"
    using c by (simp add: TranscodeWorkflow_stops)
  moreover have "videos emptyStore = []" by (simp add: emptyStore_def)
  ultimately show ?thesis using a b c by simp
qed

subsection \<open>The probe\<close>

lemma map_Duration_setStatus: "map Duration (map (setStatus vid s t) rows) = map Duration rows"
  by (induction rows) (auto simp: setStatus_def)

lemma UpdateVideoStatus_durations:
  "UpdateVideoStatus pg vid s d = Inr d' \<Longrightarrow>
   map Duration (videos d') = map Duration (videos d) \<and> video_streams d' = video_streams d"
  using map_Duration_setStatus[of vid s "NOW pg" "videos d"]
  by (auto simp: UpdateVideoStatus_def split: if_splits)

text \<open>
  C10.  \<open>GetMediaInfo\<close> returns no error and the empty map for every input and
  every outcome of the command it runs; so the duration in the result of a
  successful \<open>ExtractMetadataActivity\<close> is 0, whatever the file and whatever
  \<open>strconv.ParseFloat\<close> would compute.
\<close>

theorem GetMediaInfo_empty:
  "GetMediaInfo f run inputFile = Inr Map.empty \<and>
   (\<forall>m db'. ExtractMetadataActivity h f download db = (Inr m, db') \<longrightarrow> mDuration m = 0)"
  by (auto simp: GetMediaInfo_def ExtractMetadataActivity_def Let_def split: sum.splits)

text \<open>At the concrete download, with a parser that would give 42 for any string.\<close>

theorem GetMediaInfo_empty_witness:
  "GetMediaInfo encoder (Exec workingHost) ''/tmp/movie.mp4'' = Inr Map.empty \<and>
   fst (ExtractMetadataActivity (workingHost\<lparr>ParseFloat := \<lambda>_. 42\<rparr>) encoder downloaded storeWithDuration) =
     Inr \<lparr>mVideoID = ''v1'', mDuration = 0\<rparr>"
proof -
  let ?h = "workingHost\<lparr>ParseFloat := \<lambda>_. 42\<rparr>"
  obtain r d where e: "ExtractMetadataActivity ?h encoder downloaded storeWithDuration = (r, d)"
    by (cases "ExtractMetadataActivity ?h encoder downloaded storeWithDuration")
  have "\<exists>m. r = Inr m \<and> mVideoID m = ''v1''"
    using e by (auto simp: ExtractMetadataActivity_def GetMediaInfo_def Let_def
        UpdateVideoStatus_def workingHost_def downloaded_def split: sum.splits)
  then obtain m where m: "r = Inr m" "mVideoID m = ''v1''" by blast
  with e GetMediaInfo_empty[of encoder "Exec workingHost" "''/tmp/movie.mp4''" ?h downloaded storeWithDuration]
  have "mDuration m = 0" by blast
  with m have "m = \<lparr>mVideoID = ''v1'', mDuration = 0\<rparr>" by simp
  with e m GetMediaInfo_empty[of encoder "Exec workingHost" "''/tmp/movie.mp4''"] show ?thesis by simp
qed

lemma statusActivity_durations:
  "map Duration (videos (snd (statusActivity vid s h d))) = map Duration (videos d)"
  by (auto simp: statusActivity_def split: sum.splits dest: UpdateVideoStatus_durations)

lemma TranscodeVideoActivity_durations:
  "map Duration (videos (snd (TranscodeVideoActivity h f p d))) = map Duration (videos d)"
proof (cases "GetVideo (Pg h 0) (pVideoID p) d")
  case (Inl e)
  then show ?thesis by (simp add: TranscodeVideoActivity_def)
next
  case got: (Inr video)
  show ?thesis
  proof (cases "UpdateVideoStatus (Pg h 1) (pVideoID p) ''transcoding'' d")
    case (Inl e)
    with got show ?thesis by (simp add: TranscodeVideoActivity_def)
  next
    case upd: (Inr d1)
    obtain r d' where t: "TranscodeVideoActivity h f p d = (r, d')"
      by (cases "TranscodeVideoActivity h f p d")
    then have "videos d' = videos d1"
      using got upd
      by (auto simp: TranscodeVideoActivity_def Let_def split: sum.splits prod.splits
          dest: recordStreams_videos)
    with UpdateVideoStatus_durations[OF upd] t show ?thesis by simp
  qed
qed

lemma DownloadVideoActivity_durations:
  "case DownloadVideoActivity h params d of
     (Inl e, d') \<Rightarrow> d' = d
   | (Inr dl, d') \<Rightarrow> map Duration (videos d') = map Duration (videos d) @ [0]"
proof (cases "DownloadVideoActivity h params d")
  case (Pair r d')
  note c = DownloadVideoActivity_creates[where h = h and params = params and d = d]
  show ?thesis
  proof (cases r)
    case (Inl e)
    with c Pair show ?thesis by simp
  next
    case (Inr dl)
    with c Pair obtain row where "d' = d\<lparr>videos := videos d @ [row]\<rparr>" "Duration row = 0"
      by auto
    then have "map Duration (videos d') = map Duration (videos d) @ [0]" by simp
    with Pair Inr show ?thesis by simp
  qed
qed

text \<open>
  C4 (amended).  \<open>ExtractMetadataActivity\<close> returns the duration in its result
  only, and that duration is 0; what it writes to the Catalog Store is the status
  write \<open>analyzing\<close> for the Video (state and \<open>updated_at\<close>) and nothing else: the
  \<open>duration\<close> of every row and the table of streams are as before, and a failed
  attempt leaves the store as it was.  No other stage writes a duration either: a
  status write, the transcode and the cleanup activity leave the durations of all
  rows as they are, and Download appends its row with the default 0.
\<close>

theorem ExtractMetadataActivity_writes_state_only:
  assumes "ExtractMetadataActivity h f download db = (r, db')"
  shows "map Duration (videos db') = map Duration (videos db) \<and>
         video_streams db' = video_streams db \<and>
         (\<forall>e. r = Inl e \<longrightarrow> db' = db) \<and>
         (\<forall>m. r = Inr m \<longrightarrow>
            m = \<lparr>mVideoID = dVideoID download, mDuration = 0\<rparr> \<and>
            UpdateVideoStatus (Pg h 0) (dVideoID download) ''analyzing'' db = Inr db') \<and>
         map Duration (videos (snd (statusActivity v s h' d))) = map Duration (videos d) \<and>
         map Duration (videos (snd (TranscodeVideoActivity h' f' p d))) = map Duration (videos d) \<and>
         snd (CleanupActivity h' lp d) = d \<and>
         (case DownloadVideoActivity h' p d of
            (Inl e, d') \<Rightarrow> d' = d
          | (Inr dl, d') \<Rightarrow> map Duration (videos d') = map Duration (videos d) @ [0])"
proof -
  have probe: "map Duration (videos db') = map Duration (videos db) \<and>
         video_streams db' = video_streams db \<and>
         (\<forall>e. r = Inl e \<longrightarrow> db' = db) \<and>
         (\<forall>m. r = Inr m \<longrightarrow>
            m = \<lparr>mVideoID = dVideoID download, mDuration = 0\<rparr> \<and>
            UpdateVideoStatus (Pg h 0) (dVideoID download) ''analyzing'' db = Inr db')"
  proof (cases "UpdateVideoStatus (Pg h 0) (dVideoID download) ''analyzing'' db")
    case (Inl e)
    with assms show ?thesis
      by (auto simp: ExtractMetadataActivity_def GetMediaInfo_def Let_def)
  next
    case (Inr d1)
    with assms have "db' = d1" "r = Inr \<lparr>mVideoID = dVideoID download, mDuration = 0\<rparr>"
      by (auto simp: ExtractMetadataActivity_def GetMediaInfo_def Let_def)
    with Inr UpdateVideoStatus_durations[OF Inr] show ?thesis by simp
  qed
  show ?thesis
    using probe statusActivity_durations[where vid = v and s = s and h = h' and d = d]
      TranscodeVideoActivity_durations[where h = h' and f = f' and p = p and d = d]
      DownloadVideoActivity_durations[where h = h' and params = p and d = d]
    by (simp add: CleanupActivity_def)
qed

text \<open>The probe of the concrete download on the store with a duration in the row.\<close>

theorem ExtractMetadataActivity_writes_state_only_witness:
  "ExtractMetadataActivity workingHost encoder downloaded storeWithDuration =
     (Inr \<lparr>mVideoID = ''v1'', mDuration = 0\<rparr>,
      storeWithDuration\<lparr>videos := map (setStatus ''v1'' ''analyzing'' 2) (videos storeWithDuration)\<rparr>) \<and>
   map Duration (videos (snd (ExtractMetadataActivity workingHost encoder downloaded storeWithDuration))) =
     map Duration (videos storeWithDuration)"
proof -
  have e: "ExtractMetadataActivity workingHost encoder downloaded storeWithDuration =
     (Inr \<lparr>mVideoID = ''v1'', mDuration = 0\<rparr>,
      storeWithDuration\<lparr>videos := map (setStatus ''v1'' ''analyzing'' 2) (videos storeWithDuration)\<rparr>)"
    by (simp add: ExtractMetadataActivity_def GetMediaInfo_def Let_def UpdateVideoStatus_def
        workingHost_def downloaded_def)
  have d: "map Duration (videos (storeWithDuration\<lparr>videos :=
        map (setStatus ''v1'' ''analyzing'' 2) (videos storeWithDuration)\<rparr>)) =
      map Duration (videos storeWithDuration)"
    using ExtractMetadataActivity_writes_state_only[OF e] by (rule conjunct1)
  show ?thesis unfolding e snd_conv by (rule conjI[OF refl d])
qed

text \<open>
  C4 as stated fails: a successful probe on a row that holds the duration 120.5
  reports 0 and leaves 120.5 in the row, now in state \<open>analyzing\<close>, so the row does
  not carry the probed value.
\<close>

theorem probe_leaves_duration_counterexample:
  "fst (ExtractMetadataActivity workingHost encoder downloaded storeWithDuration) =
     Inr \<lparr>mVideoID = ''v1'', mDuration = 0\<rparr> \<and>
   map Duration (videos (snd (ExtractMetadataActivity workingHost encoder downloaded storeWithDuration))) =
     [120.5] \<and>
   map ProcessingState (videos (snd (ExtractMetadataActivity workingHost encoder downloaded storeWithDuration))) =
     [''analyzing'']"
proof -
  have "ExtractMetadataActivity workingHost encoder downloaded storeWithDuration =
     (Inr \<lparr>mVideoID = ''v1'', mDuration = 0\<rparr>,
      storeWithDuration\<lparr>videos := map (setStatus ''v1'' ''analyzing'' 2) (videos storeWithDuration)\<rparr>)"
    by (simp add: ExtractMetadataActivity_def GetMediaInfo_def Let_def UpdateVideoStatus_def
        workingHost_def downloaded_def)
  then show ?thesis
    by (simp add: storeWithDuration_def setStatus_def)
qed

subsection \<open>The read path for manifests and segments\<close>

lemma isM3U8File_iff: "isM3U8File f \<longleftrightarrow> (\<exists>stem. stem \<noteq> [] \<and> f = stem @ ''.m3u8'')"
proof
  assume a: "isM3U8File f"
  let ?stem = "take (length f - 5) f"
  have "f = ?stem @ drop (length f - 5) f" by simp
  with a have "f = ?stem @ ''.m3u8''" by (simp add: isM3U8File_def)
  moreover from a have "?stem \<noteq> []" by (auto simp: isM3U8File_def)
  ultimately show "\<exists>stem. stem \<noteq> [] \<and> f = stem @ ''.m3u8''" by blast
next
  assume "\<exists>stem. stem \<noteq> [] \<and> f = stem @ ''.m3u8''"
  then obtain stem where "stem \<noteq> []" "f = stem @ ''.m3u8''" by blast
  then show "isM3U8File f" by (cases stem) (simp_all add: isM3U8File_def)
qed

lemma ServeHLSFile_hit:
  "Redis_Get rd (''hls:videos/'' @ v @ ''/hls/'' @ f) = Inr c \<Longrightarrow> c \<noteq> [] \<Longrightarrow>
   ServeHLSFile rd st v f =
     Served (if isM3U8File f then ''application/x-mpegURL'' else ''video/MP2T'') c"
  by (simp add: ServeHLSFile_def Let_def)

lemma ServeHLSFile_fallthrough:
  "(\<forall>c. Redis_Get rd (''hls:videos/'' @ v @ ''/hls/'' @ f) = Inr c \<longrightarrow> c = []) \<Longrightarrow>
   ServeHLSFile rd st v f = signedRedirect st (''videos/'' @ v @ ''/hls/'' @ f)"
  by (cases "Redis_Get rd (''hls:videos/'' @ v @ ''/hls/'' @ f)")
     (simp_all add: ServeHLSFile_def Let_def signedRedirect_def GetSignedURL_def split: sum.splits)

lemma ServeDASHFile_hit:
  "Redis_Get rd (''dash:videos/'' @ v @ ''/dash/'' @ f) = Inr c \<Longrightarrow> c \<noteq> [] \<Longrightarrow>
   ServeDASHFile rd st v f =
     Served (if f = ''manifest.mpd'' then ''application/dash+xml'' else ''video/mp4'') c"
  by (simp add: ServeDASHFile_def Let_def)

lemma ServeDASHFile_fallthrough:
  "(\<forall>c. Redis_Get rd (''dash:videos/'' @ v @ ''/dash/'' @ f) = Inr c \<longrightarrow> c = []) \<Longrightarrow>
   ServeDASHFile rd st v f = signedRedirect st (''videos/'' @ v @ ''/dash/'' @ f)"
  by (cases "Redis_Get rd (''dash:videos/'' @ v @ ''/dash/'' @ f)")
     (simp_all add: ServeDASHFile_def Let_def signedRedirect_def GetSignedURL_def split: sum.splits)

lemma Redis_Get_down: "\<not> connected rd \<Longrightarrow> Redis_Get rd k = Inl ''dial tcp: connection refused''"
  by (simp add: Redis_Get_def)

lemma Redis_Get_miss: "connected rd \<Longrightarrow> entries rd k = None \<Longrightarrow> Redis_Get rd k = Inl ''redis: nil''"
  by (simp add: Redis_Get_def)

text \<open>
  C7.  When the cache cannot be reached, \<open>ServeHLSFile\<close> and \<open>ServeDASHFile\<close>
  answer exactly what they answer on a cache that is reached and does not hold the
  key: the redirect to the URL signed for one hour (or the signer's failure); the
  cache's error never becomes the request's.
\<close>

theorem cache_unavailable_falls_through:
  assumes down: "\<not> connected down"
    and miss: "connected up" "entries up (''hls:videos/'' @ v @ ''/hls/'' @ f) = None"
      "entries up (''dash:videos/'' @ v @ ''/dash/'' @ f) = None"
  shows "ServeHLSFile down st v f = (ServeHLSFile up st v f :: 'a Response) \<and>
         ServeDASHFile down st v f = (ServeDASHFile up st v f :: 'a Response) \<and>
         (ServeHLSFile down st v f :: 'a Response) = signedRedirect st (''videos/'' @ v @ ''/hls/'' @ f) \<and>
         (ServeDASHFile down st v f :: 'a Response) = signedRedirect st (''videos/'' @ v @ ''/dash/'' @ f) \<and>
         (\<forall>url. Presign st (''videos/'' @ v @ ''/hls/'' @ f) (1 * Hour) = Inr url \<longrightarrow>
            (ServeHLSFile down st v f :: 'a Response) = Redirect url StatusTemporaryRedirect)"
proof -
  have "ServeHLSFile down st v f = (signedRedirect st (''videos/'' @ v @ ''/hls/'' @ f) :: 'a Response)"
    by (rule ServeHLSFile_fallthrough) (simp add: Redis_Get_down[OF down])
  moreover
  have "ServeHLSFile up st v f = (signedRedirect st (''videos/'' @ v @ ''/hls/'' @ f) :: 'a Response)"
    by (rule ServeHLSFile_fallthrough) (use Redis_Get_miss[OF miss(1,2)] in simp)
  moreover
  have "ServeDASHFile down st v f = (signedRedirect st (''videos/'' @ v @ ''/dash/'' @ f) :: 'a Response)"
    by (rule ServeDASHFile_fallthrough) (simp add: Redis_Get_down[OF down])
  moreover
  have "ServeDASHFile up st v f = (signedRedirect st (''videos/'' @ v @ ''/dash/'' @ f) :: 'a Response)"
    by (rule ServeDASHFile_fallthrough) (use Redis_Get_miss[OF miss(1,3)] in simp)
  ultimately show ?thesis by (simp add: signedRedirect_def)
qed

text \<open>A segment request with the cache down and with the cache empty.\<close>

theorem cache_unavailable_falls_through_witness:
  "(ServeHLSFile (warmCache\<lparr>connected := False\<rparr>) signer ''v1'' ''v1_v0_001.ts'' :: unit Response) =
     ServeHLSFile coldCache signer ''v1'' ''v1_v0_001.ts'' \<and>
   (ServeHLSFile (warmCache\<lparr>connected := False\<rparr>) signer ''v1'' ''v1_v0_001.ts'' :: unit Response) =
     Redirect ''signed:videos/v1/hls/v1_v0_001.ts?expires=3600'' 307"
proof -
  have d: "\<not> connected (warmCache\<lparr>connected := False\<rparr>)" by simp
  have u: "connected coldCache" "entries coldCache (''hls:videos/'' @ ''v1'' @ ''/hls/'' @ ''v1_v0_001.ts'') = None"
    "entries coldCache (''dash:videos/'' @ ''v1'' @ ''/dash/'' @ ''v1_v0_001.ts'') = None"
    by (simp_all add: coldCache_def)
  have s: "Presign signer (''videos/'' @ ''v1'' @ ''/hls/'' @ ''v1_v0_001.ts'') (1 * Hour) =
      Inr ''signed:videos/v1/hls/v1_v0_001.ts?expires=3600''"
    by (simp add: signer_def Hour_def Sprintf_d_def itoa.simps digit_def)
  note t = cache_unavailable_falls_through[OF d u, where st = signer and 'a = unit]
  have a: "(ServeHLSFile (warmCache\<lparr>connected := False\<rparr>) signer ''v1'' ''v1_v0_001.ts'' :: unit Response) =
     ServeHLSFile coldCache signer ''v1'' ''v1_v0_001.ts''"
    using t by (rule conjunct1)
  have b: "(ServeHLSFile (warmCache\<lparr>connected := False\<rparr>) signer ''v1'' ''v1_v0_001.ts'' :: unit Response) =
     Redirect ''signed:videos/v1/hls/v1_v0_001.ts?expires=3600'' StatusTemporaryRedirect"
    using t s by blast
  show ?thesis using a b by (simp add: StatusTemporaryRedirect_def)
qed

text \<open>
  C5 (amended).  The HLS handler looks up \<open>hls:videos/{id}/hls/{file}\<close>, the DASH
  handler \<open>dash:videos/{id}/dash/{file}\<close>.  When the lookup gives a non-empty value
  the handler serves it: the HLS handler as \<open>application/x-mpegURL\<close> when the file
  name is a non-empty stem followed by \<open>.m3u8\<close> and as \<open>video/MP2T\<close> otherwise,
  the DASH handler as \<open>application/dash+xml\<close> when the file is \<open>manifest.mpd\<close> and
  as \<open>video/mp4\<close> otherwise.  In every other case (key absent, empty value, cache
  error) it serves no bytes: it redirects (307) to the object's URL signed for one
  hour, or answers 500 when signing fails.
\<close>

theorem serve_file_cache_aside:
  "(\<forall>c. Redis_Get rd (''hls:videos/'' @ v @ ''/hls/'' @ f) = Inr c \<and> c \<noteq> [] \<longrightarrow>
      (ServeHLSFile rd st v f :: 'a Response) =
        Served (if (\<exists>stem. stem \<noteq> [] \<and> f = stem @ ''.m3u8'') then ''application/x-mpegURL''
                else ''video/MP2T'') c) \<and>
   ((\<forall>c. Redis_Get rd (''hls:videos/'' @ v @ ''/hls/'' @ f) = Inr c \<longrightarrow> c = []) \<longrightarrow>
      (ServeHLSFile rd st v f :: 'a Response) = signedRedirect st (''videos/'' @ v @ ''/hls/'' @ f)) \<and>
   (\<forall>c. Redis_Get rd (''dash:videos/'' @ v @ ''/dash/'' @ f) = Inr c \<and> c \<noteq> [] \<longrightarrow>
      (ServeDASHFile rd st v f :: 'a Response) =
        Served (if f = ''manifest.mpd'' then ''application/dash+xml'' else ''video/mp4'') c) \<and>
   ((\<forall>c. Redis_Get rd (''dash:videos/'' @ v @ ''/dash/'' @ f) = Inr c \<longrightarrow> c = []) \<longrightarrow>
      (ServeDASHFile rd st v f :: 'a Response) = signedRedirect st (''videos/'' @ v @ ''/dash/'' @ f))"
  using ServeHLSFile_hit[of rd v f _ st, where 'a = 'a]
    ServeHLSFile_fallthrough[of rd v f st, where 'a = 'a]
    ServeDASHFile_hit[of rd v f _ st, where 'a = 'a]
    ServeDASHFile_fallthrough[of rd v f st, where 'a = 'a]
  unfolding isM3U8File_iff by blast

text \<open>A playlist served from the cache and a segment redirected on a miss.\<close>

theorem serve_file_cache_aside_witness:
  "(ServeHLSFile warmCache signer ''v1'' ''v1_v0.m3u8'' :: unit Response) =
     Served ''application/x-mpegURL'' ''#EXTM3U'' \<and>
   (ServeHLSFile coldCache signer ''v1'' ''v1_v0_001.ts'' :: unit Response) =
     Redirect ''signed:videos/v1/hls/v1_v0_001.ts?expires=3600'' 307"
proof -
  note t1 = serve_file_cache_aside[of warmCache "''v1''" "''v1_v0.m3u8''" signer, where 'a = unit]
  note t2 = serve_file_cache_aside[of coldCache "''v1''" "''v1_v0_001.ts''" signer, where 'a = unit]
  have g: "Redis_Get warmCache (''hls:videos/'' @ ''v1'' @ ''/hls/'' @ ''v1_v0.m3u8'') = Inr ''#EXTM3U''"
    by (simp add: Redis_Get_def warmCache_def)
  have m: "(\<exists>stem. stem \<noteq> [] \<and> ''v1_v0.m3u8'' = stem @ ''.m3u8'')"
    unfolding isM3U8File_iff[symmetric] by (simp add: isM3U8File_def)
  have a: "(ServeHLSFile warmCache signer ''v1'' ''v1_v0.m3u8'' :: unit Response) =
      Served (if (\<exists>stem. stem \<noteq> [] \<and> ''v1_v0.m3u8'' = stem @ ''.m3u8'')
              then ''application/x-mpegURL'' else ''video/MP2T'') ''#EXTM3U''"
    using t1 g by blast
  have n: "\<forall>c. Redis_Get coldCache (''hls:videos/'' @ ''v1'' @ ''/hls/'' @ ''v1_v0_001.ts'') = Inr c \<longrightarrow> c = []"
    by (simp add: Redis_Get_def coldCache_def)
  have b: "(ServeHLSFile coldCache signer ''v1'' ''v1_v0_001.ts'' :: unit Response) =
      signedRedirect signer (''videos/'' @ ''v1'' @ ''/hls/'' @ ''v1_v0_001.ts'')"
    using t2 n by blast
  have s: "(signedRedirect signer (''videos/'' @ ''v1'' @ ''/hls/'' @ ''v1_v0_001.ts'') :: unit Response) =
      Redirect ''signed:videos/v1/hls/v1_v0_001.ts?expires=3600'' 307"
    by (simp add: signedRedirect_def signer_def Hour_def Sprintf_d_def itoa.simps digit_def
        StatusTemporaryRedirect_def)
  show ?thesis
    unfolding b s using a m by simp
qed

text \<open>
  C5 as stated fails: a miss with a failing signer is answered 500, not a redirect;
  a key held with an empty value is redirected, not served; the HLS handler serves
  the file \<open>.m3u8\<close> as \<open>video/MP2T\<close>, and the DASH handler serves a file with the
  extension \<open>.m3u8\<close> as \<open>video/mp4\<close>.
\<close>

theorem serve_file_counterexample:
  "(ServeHLSFile coldCache failingSigner ''v1'' ''v1_v0_001.ts'' :: unit Response) =
     Error ''Error generating URL: failed to sign request: signing failed'' 500 \<and>
   Redis_Get warmCache ''hls:videos/v1/hls/empty.ts'' = Inr [] \<and>
   (ServeHLSFile warmCache signer ''v1'' ''empty.ts'' :: unit Response) =
     Redirect ''signed:videos/v1/hls/empty.ts?expires=3600'' 307 \<and>
   (ServeHLSFile warmCache signer ''v1'' ''.m3u8'' :: unit Response) =
     Served ''video/MP2T'' ''#EXTM3U'' \<and>
   (ServeDASHFile warmCache signer ''v1'' ''index.m3u8'' :: unit Response) =
     Served ''video/mp4'' ''#EXTM3U''"
  by (simp add: ServeHLSFile_def ServeDASHFile_def Redis_Get_def GetSignedURL_def Let_def
      coldCache_def warmCache_def signer_def failingSigner_def isM3U8File_def Hour_def
      Sprintf_d_def itoa.simps digit_def StatusTemporaryRedirect_def
      StatusInternalServerError_def)

subsection \<open>Video detail\<close>

lemma masters_result:
  "masters st v ss (fs, hm, dm) = (fs', hm', dm') \<Longrightarrow>
   hm' = (if (\<exists>s\<in>set ss. Format s = ''hls'' \<and> Resolution s = ''1920x1080'')
          then (case GetSignedURL st (''videos/'' @ v @ ''/hls/master.m3u8'') (24 * Hour) of
                  Inr url \<Rightarrow> url | Inl _ \<Rightarrow> hm)
          else hm) \<and>
   dm' = (if (\<exists>s\<in>set ss. Format s = ''dash'' \<and> Resolution s = ''1920x1080'')
          then (case GetSignedURL st (''videos/'' @ v @ ''/dash/manifest.mpd'') (24 * Hour) of
                  Inr url \<Rightarrow> url | Inl _ \<Rightarrow> dm)
          else dm)"
proof (induction ss arbitrary: fs hm dm)
  case Nil
  then show ?case by simp
next
  case (Cons s ss)
  let ?fs = "if \<not> contains fs (Format s) then fs @ [Format s] else fs"
  consider (hls) "Format s = ''hls''" "Resolution s = ''1920x1080''"
    | (dash) "Format s = ''dash''" "Resolution s = ''1920x1080''"
    | (other) "\<not> (Format s = ''hls'' \<and> Resolution s = ''1920x1080'')"
        "\<not> (Format s = ''dash'' \<and> Resolution s = ''1920x1080'')" by blast
  then show ?case
  proof cases
    case hls
    show ?thesis
    proof (cases "GetSignedURL st (''videos/'' @ v @ ''/hls/master.m3u8'') (24 * Hour)")
      case (Inl e)
      with hls Cons.prems have "masters st v ss (?fs, hm, dm) = (fs', hm', dm')"
        by (simp add: Let_def)
      from Cons.IH[OF this] hls Inl show ?thesis by simp
    next
      case (Inr url)
      with hls Cons.prems have "masters st v ss (?fs, url, dm) = (fs', hm', dm')"
        by (simp add: Let_def)
      from Cons.IH[OF this] hls Inr show ?thesis by (simp split: sum.splits)
    qed
  next
    case dash
    show ?thesis
    proof (cases "GetSignedURL st (''videos/'' @ v @ ''/dash/manifest.mpd'') (24 * Hour)")
      case (Inl e)
      with dash Cons.prems have "masters st v ss (?fs, hm, dm) = (fs', hm', dm')"
        by (simp add: Let_def)
      from Cons.IH[OF this] dash Inl show ?thesis by simp
    next
      case (Inr url)
      with dash Cons.prems have "masters st v ss (?fs, hm, url) = (fs', hm', dm')"
        by (simp add: Let_def)
      from Cons.IH[OF this] dash Inr show ?thesis by (simp split: sum.splits)
    qed
  next
    case other
    with Cons.prems have "masters st v ss (?fs, hm, dm) = (fs', hm', dm')"
      by (auto simp: Let_def)
    from Cons.IH[OF this] other show ?thesis by auto
  qed
qed

lemma GetSignedURL_masterURL:
  "(case GetSignedURL st k (24 * Hour) of Inr url \<Rightarrow> url | Inl _ \<Rightarrow> []) = masterURL st k"
  by (simp add: GetSignedURL_def masterURL_def split: sum.splits)

lemma set_rowsRead: "set (rowsRead pg xs) \<subseteq> set xs"
  by (auto simp: rowsRead_def split: option.splits dest: in_set_takeD)

lemma rowsRead_all: "fetched pg = None \<Longrightarrow> rowsRead pg xs = xs"
  by (simp add: rowsRead_def)

lemma GetVideoStreams_set:
  assumes "GetVideoStreams pg v db = Inr ss"
  shows "set ss \<subseteq> {s \<in> set (video_streams db). VideoID s = v}"
    and "fetched pg = None \<Longrightarrow> set ss = {s \<in> set (video_streams db). VideoID s = v}"
proof -
  let ?all = "rev (sort_key (\<lambda>s. (Resolution s, tiebreak pg (StreamID s)))
                (filter (\<lambda>s. VideoID s = v) (video_streams db)))"
  have ss: "ss = rowsRead pg ?all"
    using assms by (simp add: GetVideoStreams_def split: if_splits)
  have all: "set ?all = {s \<in> set (video_streams db). VideoID s = v}" by auto
  show "set ss \<subseteq> {s \<in> set (video_streams db). VideoID s = v}"
    using set_rowsRead[of pg ?all] unfolding ss all .
  show "set ss = {s \<in> set (video_streams db). VideoID s = v}" if "fetched pg = None"
    unfolding ss rowsRead_all[OF that] by (rule all)
qed

text \<open>
  C6 (amended).  In a detail response the HLS master URL is the URL of the fixed
  object key \<open>videos/{id}/hls/master.m3u8\<close> signed for 24 hours when a rendition of
  format \<open>hls\<close> and resolution \<open>1920x1080\<close> is among the renditions the response
  lists (empty when there is none, or when signing fails), and likewise the DASH
  master URL for \<open>videos/{id}/dash/manifest.mpd\<close> and a rendition of format \<open>dash\<close>.
  The renditions listed are renditions of the Video in the Catalog Store, all of them
  when the query's result is delivered in full; then the condition is that the Video
  has such a rendition.  The object key of the rendition itself is not read.  24
  hours is longer than the 1 hour of the segment signatures.
\<close>

theorem GetVideoInfo_master_urls:
  assumes "GetVideoInfo pg st db v = Json info"
  shows "HLSMaster info =
           (if \<exists>s\<in>set (siStreams info). Format s = ''hls'' \<and> Resolution s = ''1920x1080''
            then masterURL st (''videos/'' @ v @ ''/hls/master.m3u8'') else []) \<and>
         DASHMaster info =
           (if \<exists>s\<in>set (siStreams info). Format s = ''dash'' \<and> Resolution s = ''1920x1080''
            then masterURL st (''videos/'' @ v @ ''/dash/manifest.mpd'') else []) \<and>
         set (siStreams info) \<subseteq> {s \<in> set (video_streams db). VideoID s = v} \<and>
         (fetched (pg 1) = None \<longrightarrow>
            HLSMaster info =
              (if hasRendition db v ''hls'' ''1920x1080''
               then masterURL st (''videos/'' @ v @ ''/hls/master.m3u8'') else []) \<and>
            DASHMaster info =
              (if hasRendition db v ''dash'' ''1920x1080''
               then masterURL st (''videos/'' @ v @ ''/dash/manifest.mpd'') else [])) \<and>
         (1 * Hour < 24 * Hour)"
proof -
  from assms obtain video ss fs hm dm where
    g: "GetVideoStreams (pg 1) v db = Inr ss" and
    m: "masters st v ss ([], [], []) = (fs, hm, dm)" and
    i: "HLSMaster info = hm" "DASHMaster info = dm" "siStreams info = ss"
    by (auto simp: GetVideoInfo_def split: sum.splits prod.splits)
  have urls: "hm = (if \<exists>s\<in>set ss. Format s = ''hls'' \<and> Resolution s = ''1920x1080''
                    then masterURL st (''videos/'' @ v @ ''/hls/master.m3u8'') else [])"
    "dm = (if \<exists>s\<in>set ss. Format s = ''dash'' \<and> Resolution s = ''1920x1080''
           then masterURL st (''videos/'' @ v @ ''/dash/manifest.mpd'') else [])"
    using masters_result[OF m] unfolding GetSignedURL_masterURL by simp_all
  have s: "(\<exists>s\<in>set ss. Format s = fmt \<and> Resolution s = res) \<longleftrightarrow> hasRendition db v fmt res"
    if "fetched (pg 1) = None" for fmt res
    unfolding GetVideoStreams_set(2)[OF g that] hasRendition_def by auto
  have full: "fetched (pg 1) = None \<longrightarrow>
      hm = (if hasRendition db v ''hls'' ''1920x1080''
            then masterURL st (''videos/'' @ v @ ''/hls/master.m3u8'') else []) \<and>
      dm = (if hasRendition db v ''dash'' ''1920x1080''
            then masterURL st (''videos/'' @ v @ ''/dash/manifest.mpd'') else [])"
    using urls s by simp
  have h: "1 * Hour < 24 * Hour" by (simp add: Hour_def)
  from urls full h GetVideoStreams_set(1)[OF g] show ?thesis
    unfolding i by blast
qed

text \<open>The detail of the concrete Video with its two HLS renditions published.\<close>

theorem GetVideoInfo_master_urls_witness:
  "\<exists>info. GetVideoInfo (\<lambda>_. pgUp) signer publishedStore ''v1'' = Json info \<and>
      HLSMaster info = ''signed:videos/v1/hls/master.m3u8?expires=86400'' \<and>
      DASHMaster info = []"
proof -
  have "\<exists>info. GetVideoInfo (\<lambda>_. pgUp) signer publishedStore ''v1'' = Json info"
    by (simp add: GetVideoInfo_def GetVideo_def GetVideoStreams_def pgUp_def publishedStore_def
        storeWithRow_def split: prod.splits)
  then obtain info where e: "GetVideoInfo (\<lambda>_. pgUp) signer publishedStore ''v1'' = Json info" ..
  have h: "hasRendition publishedStore ''v1'' ''hls'' ''1920x1080''"
    "\<not> hasRendition publishedStore ''v1'' ''dash'' ''1920x1080''"
    by (simp_all add: hasRendition_def publishedStore_def streamA_def streamB_def)
  have u: "masterURL signer (''videos/'' @ ''v1'' @ ''/hls/master.m3u8'') =
      ''signed:videos/v1/hls/master.m3u8?expires=86400''"
    by (simp add: masterURL_def signer_def Hour_def Sprintf_d_def itoa.simps digit_def)
  have f: "fetched pgUp = None" by (simp add: pgUp_def)
  from GetVideoInfo_master_urls[OF e] f
  have "HLSMaster info =
          (if hasRendition publishedStore ''v1'' ''hls'' ''1920x1080''
           then masterURL signer (''videos/'' @ ''v1'' @ ''/hls/master.m3u8'') else []) \<and>
        DASHMaster info =
          (if hasRendition publishedStore ''v1'' ''dash'' ''1920x1080''
           then masterURL signer (''videos/'' @ ''v1'' @ ''/dash/manifest.mpd'') else [])"
    by blast
  with h u e show ?thesis by simp
qed

text \<open>
  C6 as stated fails: the Video's rendition of format \<open>hls\<close> and resolution
  \<open>1920x1080\<close> has the object key \<open>videos/v1/hls/v1_v0.m3u8\<close>, and the master URL of
  the response is not that key signed for 24 hours but the signed URL of
  \<open>videos/v1/hls/master.m3u8\<close>.
\<close>

theorem master_key_counterexample:
  "GetVideoInfo (\<lambda>_. pgUp) signer publishedStore ''v1'' =
     Json \<lparr>siVideoID = ''v1'', siTitle = ''Sample Video'', siDuration = 0,
           siStatus = ''completed'', siFormats = [''hls''],
           HLSMaster = ''signed:videos/v1/hls/master.m3u8?expires=86400'',
           DASHMaster = [], siStreams = [streamA, streamB], siCreatedAt = 0\<rparr> \<and>
   Format streamA = ''hls'' \<and> Resolution streamA = ''1920x1080'' \<and>
   Path streamA = ''videos/v1/hls/v1_v0.m3u8'' \<and>
   masterURL signer (Path streamA) = ''signed:videos/v1/hls/v1_v0.m3u8?expires=86400'' \<and>
   ''signed:videos/v1/hls/master.m3u8?expires=86400'' \<noteq> masterURL signer (Path streamA)"
proof -
  have g: "GetVideoStreams pgUp ''v1'' publishedStore = Inr [streamA, streamB]"
    by code_simp
  have v: "GetVideo pgUp ''v1'' publishedStore = Inr (hd (videos storeWithRow))"
    by (simp add: GetVideo_def pgUp_def publishedStore_def storeWithRow_def)
  have u: "GetSignedURL signer ''videos/v1/hls/master.m3u8'' (24 * Hour) =
      Inr ''signed:videos/v1/hls/master.m3u8?expires=86400''"
    by (simp add: GetSignedURL_def signer_def Hour_def Sprintf_d_def itoa.simps digit_def)
  have m: "masters signer ''v1'' [streamA, streamB] ([], [], []) =
      ([''hls''], ''signed:videos/v1/hls/master.m3u8?expires=86400'', [])"
    using u by (simp add: streamA_def streamB_def Let_def)
  have p: "masterURL signer (Path streamA) = ''signed:videos/v1/hls/v1_v0.m3u8?expires=86400''"
    by (simp add: masterURL_def signer_def streamA_def Hour_def Sprintf_d_def itoa.simps digit_def)
  have "GetVideoInfo (\<lambda>_. pgUp) signer publishedStore ''v1'' =
     Json \<lparr>siVideoID = ''v1'', siTitle = ''Sample Video'', siDuration = 0,
           siStatus = ''completed'', siFormats = [''hls''],
           HLSMaster = ''signed:videos/v1/hls/master.m3u8?expires=86400'',
           DASHMaster = [], siStreams = [streamA, streamB], siCreatedAt = 0\<rparr>"
    unfolding GetVideoInfo_def v g by (simp add: m storeWithRow_def del: masters.simps)
  with p show ?thesis by (simp add: streamA_def)
qed

subsection \<open>Listing\<close>

lemma newestFirst_props:
  "mset (newestFirst tie rows) = mset rows \<and>
   sorted_wrt (\<lambda>a b. CreatedAt b \<le> CreatedAt a) (newestFirst tie rows)"
proof -
  let ?key = "\<lambda>v. (CreatedAt v, tie (ID v))"
  have "sorted (map ?key (sort_key ?key rows))" by (rule sorted_sort_key)
  then have "sorted_wrt (\<lambda>a b. ?key a \<le> ?key b) (sort_key ?key rows)"
    by (simp add: sorted_map)
  then have "sorted_wrt (\<lambda>a b. CreatedAt a \<le> CreatedAt b) (sort_key ?key rows)"
    by (rule sorted_wrt_mono_rel[rotated]) (auto simp: less_eq_prod_def)
  then show ?thesis by (simp add: newestFirst_def sorted_wrt_rev)
qed

text \<open>
  C8.  With the database answering: a request without \<open>limit\<close> and \<open>offset\<close> has
  limit 10 and offset 0; on an empty catalog a request with limit 10 and offset 0 is
  answered with the empty list and the pagination 10, 0, not with an error; in
  general the answer is never an error, its pagination echoes the limit and the
  offset, and its list is what the loop reads of the query's result.  For a limit
  and an offset that are not negative that result is the Videos newest first (a
  rearrangement of all rows, creation times descending) with \<open>offset\<close> rows dropped
  and at most \<open>limit\<close> rows taken, no bound applied to either, and the answer lists
  all of it when the result is delivered in full.  For a negative limit or offset
  the result has no row, and the answer is the empty list.
\<close>

theorem ListVideos_pagination:
  assumes up: "reachable pg"
  shows "queryInt scan [] 10 = 10 \<and> queryInt scan [] 0 = 0 \<and>
         (queryInt scan limitQ 10 = 10 \<and> queryInt scan offsetQ 0 = 0 \<and> videos db = [] \<longrightarrow>
            StreamerHandler_ListVideos pg scan db limitQ offsetQ =
              Json \<lparr>lrVideos = [], lrLimit = 10, lrOffset = 0\<rparr>) \<and>
         StreamerHandler_ListVideos pg scan db limitQ offsetQ =
           Json \<lparr>lrVideos = rowsRead pg
                    (if queryInt scan offsetQ 0 < 0 \<or> queryInt scan limitQ 10 < 0 then []
                     else take (nat (queryInt scan limitQ 10))
                            (drop (nat (queryInt scan offsetQ 0))
                               (newestFirst (tiebreak pg) (videos db)))),
                 lrLimit = queryInt scan limitQ 10,
                 lrOffset = queryInt scan offsetQ 0\<rparr> \<and>
         (fetched pg = None \<and> 0 \<le> queryInt scan limitQ 10 \<and> 0 \<le> queryInt scan offsetQ 0 \<longrightarrow>
            StreamerHandler_ListVideos pg scan db limitQ offsetQ =
              Json \<lparr>lrVideos = take (nat (queryInt scan limitQ 10))
                                 (drop (nat (queryInt scan offsetQ 0))
                                    (newestFirst (tiebreak pg) (videos db))),
                    lrLimit = queryInt scan limitQ 10,
                    lrOffset = queryInt scan offsetQ 0\<rparr>) \<and>
         (queryInt scan limitQ 10 < 0 \<or> queryInt scan offsetQ 0 < 0 \<longrightarrow>
            StreamerHandler_ListVideos pg scan db limitQ offsetQ =
              Json \<lparr>lrVideos = [], lrLimit = queryInt scan limitQ 10,
                    lrOffset = queryInt scan offsetQ 0\<rparr>) \<and>
         mset (newestFirst (tiebreak pg) (videos db)) = mset (videos db) \<and>
         sorted_wrt (\<lambda>a b. CreatedAt b \<le> CreatedAt a) (newestFirst (tiebreak pg) (videos db))"
proof -
  let ?l = "queryInt scan limitQ 10" and ?o = "queryInt scan offsetQ 0"
  let ?result = "if ?o < 0 \<or> ?l < 0 then []
                 else take (nat ?l) (drop (nat ?o) (newestFirst (tiebreak pg) (videos db)))"
  have a: "queryInt scan [] 10 = 10" "queryInt scan [] 0 = 0" by (simp_all add: queryInt_def)
  have e: "rowsRead pg [] = ([] :: Video list)"
    by (simp add: rowsRead_def split: option.splits)
  have g: "StreamerHandler_ListVideos pg scan db limitQ offsetQ =
      Json \<lparr>lrVideos = rowsRead pg ?result, lrLimit = ?l, lrOffset = ?o\<rparr>"
    using up
    by (simp add: StreamerHandler_ListVideos_def Database_ListVideos_def Let_def newestFirst_def)
  have b: "StreamerHandler_ListVideos pg scan db limitQ offsetQ =
      Json \<lparr>lrVideos = take (nat ?l) (drop (nat ?o) (newestFirst (tiebreak pg) (videos db))),
            lrLimit = ?l, lrOffset = ?o\<rparr>"
    if "fetched pg = None" "0 \<le> ?l" "0 \<le> ?o"
    unfolding g using that by (simp add: rowsRead_all)
  have c: "StreamerHandler_ListVideos pg scan db limitQ offsetQ =
      Json \<lparr>lrVideos = [], lrLimit = 10, lrOffset = 0\<rparr>"
    if "?l = 10" "?o = 0" "videos db = []"
    unfolding g using that e by (simp add: newestFirst_def)
  have d: "StreamerHandler_ListVideos pg scan db limitQ offsetQ =
      Json \<lparr>lrVideos = [], lrLimit = ?l, lrOffset = ?o\<rparr>"
    if "?l < 0 \<or> ?o < 0"
    unfolding g using that e by auto
  from a b c d g newestFirst_props[of "tiebreak pg" "videos db"] show ?thesis by blast
qed

text \<open>
  The listing of the empty catalog without parameters, of one Video with limit 1, and
  of the same catalog with the limit -1.
\<close>

theorem ListVideos_pagination_witness:
  "StreamerHandler_ListVideos pgUp noScan emptyStore [] [] =
     Json \<lparr>lrVideos = [], lrLimit = 10, lrOffset = 0\<rparr> \<and>
   StreamerHandler_ListVideos pgUp (\<lambda>q. if q = ''1'' then Some 1 else None) storeWithRow ''1'' [] =
     Json \<lparr>lrVideos = videos storeWithRow, lrLimit = 1, lrOffset = 0\<rparr> \<and>
   StreamerHandler_ListVideos pgUp (\<lambda>q. if q = ''-1'' then Some (- 1) else None) storeWithRow ''-1'' [] =
     Json \<lparr>lrVideos = [], lrLimit = - 1, lrOffset = 0\<rparr>"
proof -
  have up: "reachable pgUp" "fetched pgUp = None" by (simp_all add: pgUp_def)
  note t1 = ListVideos_pagination[OF up(1), of noScan "[]" "[]" emptyStore]
  note t2 = ListVideos_pagination[OF up(1), of "\<lambda>q. if q = ''1'' then Some 1 else None" "''1''" "[]"
      storeWithRow]
  note t3 = ListVideos_pagination[OF up(1), of "\<lambda>q. if q = ''-1'' then Some (- 1) else None"
      "''-1''" "[]" storeWithRow]
  have e: "videos emptyStore = []" by (simp add: emptyStore_def)
  have a: "StreamerHandler_ListVideos pgUp noScan emptyStore [] [] =
     Json \<lparr>lrVideos = [], lrLimit = 10, lrOffset = 0\<rparr>"
    using t1 e by blast
  have q: "queryInt (\<lambda>q. if q = ''1'' then Some 1 else None) ''1'' 10 = 1"
    "queryInt (\<lambda>q. if q = ''1'' then Some 1 else None) [] 0 = 0"
    "queryInt (\<lambda>q. if q = ''-1'' then Some (- 1) else None) ''-1'' 10 = - 1"
    "queryInt (\<lambda>q. if q = ''-1'' then Some (- 1) else None) [] 0 = 0"
    by (simp_all add: queryInt_def)
  have n: "newestFirst (tiebreak pgUp) (videos storeWithRow) = videos storeWithRow"
    by (simp add: newestFirst_def storeWithRow_def)
  have b: "StreamerHandler_ListVideos pgUp (\<lambda>q. if q = ''1'' then Some 1 else None) storeWithRow ''1'' [] =
     Json \<lparr>lrVideos = videos storeWithRow, lrLimit = 1, lrOffset = 0\<rparr>"
    using t2 up(2) unfolding q n by (simp add: storeWithRow_def rowsRead_all)
  have c: "StreamerHandler_ListVideos pgUp (\<lambda>q. if q = ''-1'' then Some (- 1) else None) storeWithRow ''-1'' [] =
     Json \<lparr>lrVideos = [], lrLimit = - 1, lrOffset = 0\<rparr>"
  proof -
    have "(- 1 :: int) < 0 \<or> (0 :: int) < 0" by simp
    with t3[unfolded q] show ?thesis by blast
  qed
  from a b c show ?thesis by simp
qed

subsection \<open>The Transcode stage\<close>

lemma recordStreams_streams:
  "recordStreams h p i rs acc db = (Inr ss, db') \<Longrightarrow>
   ss = acc @ map (\<lambda>(k, r). streamInfo p k r) (enumerate i rs)"
proof (induction rs arbitrary: i acc db)
  case Nil
  then show ?case by simp
next
  case (Cons res rest)
  show ?case
  proof (cases "AddVideoStream (Pg h (2 + i)) (streamRow h p i res) db")
    case (Inl e)
    with Cons.prems show ?thesis by simp
  next
    case (Inr d)
    with Cons.prems
    have "recordStreams h p (Suc i) rest (acc @ [streamInfo p i res]) d = (Inr ss, db')"
      by simp
    from Cons.IH[OF this] show ?thesis by simp
  qed
qed

lemma TranscodeVideoActivity_streams:
  assumes "TranscodeVideoActivity h f p db = (Inr res, db')"
  shows "\<exists>ladder. UnmarshalResolutions h = Inr ladder \<and>
           Streams res = map (\<lambda>(k, r). streamInfo p k r) (enumerate 0 ladder)"
  using assms
  by (auto simp: TranscodeVideoActivity_def Let_def split: sum.splits prod.splits
      dest!: recordStreams_streams)

lemma masterPlaylistEntries_enumerate:
  "masterPlaylistEntries seg i rs = map (\<lambda>(k, r). streamInf seg k r) (enumerate i rs)"
  by (induction rs arbitrary: i) simp_all

text \<open>
  C3 (amended).  A successful \<open>TranscodeVideoActivity\<close> on a ladder of N entries
  returns exactly N descriptors, in ladder order, the i-th with the resolution label
  WxH and the bitrate of the i-th entry, format \<open>hls\<close>, the key of the i-th variant's
  playlist, size 0 and segment size 10.  The master manifest text that
  \<open>TranscodeToHLS\<close> assembles for the ladder (and does not write anywhere) is the
  two header lines followed by exactly N \<open>STREAM-INF\<close> entries in ladder order, the
  i-th with \<open>RESOLUTION=WxH\<close> of the i-th entry and followed by the line naming the
  i-th variant's playlist file.  What the \<open>BANDWIDTH\<close> attribute holds is left open.
\<close>

theorem TranscodeVideoActivity_descriptors:
  assumes run: "TranscodeVideoActivity h f params db = (Inr res, db')"
    and cfg: "UnmarshalResolutions h = Inr ladder"
  shows "length (Streams res) = length ladder \<and>
         (\<forall>i<length ladder. Streams res ! i =
            \<lparr>iResolution = Sprintf_d (Width (ladder ! i)) @ ''x'' @ Sprintf_d (Height (ladder ! i)),
             iBitrate = ResBitrate (ladder ! i),
             iFormat = ''hls'',
             iPath = ''videos/'' @ pVideoID params @ ''/hls/'' @ playlistFile (pVideoID params) i,
             iSize = 0,
             iSegmentSize = 10\<rparr>) \<and>
         length (masterPlaylistEntries (pVideoID params) 0 ladder) = length ladder \<and>
         (\<forall>i<length ladder. \<exists>bandwidth.
            masterPlaylistEntries (pVideoID params) 0 ladder ! i =
              ''#EXT-X-STREAM-INF:BANDWIDTH='' @ bandwidth @ '',RESOLUTION='' @
              Sprintf_d (Width (ladder ! i)) @ ''x'' @ Sprintf_d (Height (ladder ! i)) @ [CHR 0x0A] @
              playlistFile (pVideoID params) i @ [CHR 0x0A]) \<and>
         masterPlaylistContent (pVideoID params) ladder =
           ''#EXTM3U'' @ [CHR 0x0A] @ ''#EXT-X-VERSION:3'' @ [CHR 0x0A] @
           concat (masterPlaylistEntries (pVideoID params) 0 ladder)"
proof -
  from TranscodeVideoActivity_streams[OF run] cfg
  have s: "Streams res = map (\<lambda>(k, r). streamInfo params k r) (enumerate 0 ladder)" by auto
  have a: "length (Streams res) = length ladder" unfolding s by simp
  have b: "Streams res ! i = streamInfo params i (ladder ! i)" if "i < length ladder" for i
    unfolding s using that by (simp add: nth_enumerate_eq)
  have c: "masterPlaylistEntries (pVideoID params) 0 ladder ! i =
      streamInf (pVideoID params) i (ladder ! i)" if "i < length ladder" for i
    unfolding masterPlaylistEntries_enumerate using that by (simp add: nth_enumerate_eq)
  have d: "length (masterPlaylistEntries (pVideoID params) 0 ladder) = length ladder"
    unfolding masterPlaylistEntries_enumerate by simp
  have e: "\<exists>bandwidth. streamInf seg i r =
      ''#EXT-X-STREAM-INF:BANDWIDTH='' @ bandwidth @ '',RESOLUTION='' @
      Sprintf_d (Width r) @ ''x'' @ Sprintf_d (Height r) @ [CHR 0x0A] @
      playlistFile seg i @ [CHR 0x0A]" for seg i r
    unfolding streamInf_def by (rule exI[of _ "Sprintf_d_string (ResBitrate r)"]) simp
  show ?thesis
    using a b c d e
    by (simp add: streamInfo_def resolutionLabel_def streamPath_def masterPlaylistContent_def)
qed

text \<open>The Transcode stage of the concrete upload on the two-entry ladder.\<close>

theorem TranscodeVideoActivity_descriptors_witness:
  "fst (TranscodeVideoActivity workingHost encoder upload storeWithRow) =
     Inr \<lparr>tVideoID = ''v1'', OutputDirectory = ''/tmp/output-v1'',
          Streams = [\<lparr>iResolution = ''1920x1080'', iBitrate = ''5000k'', iFormat = ''hls'',
                      iPath = ''videos/v1/hls/v1_v0.m3u8'', iSize = 0, iSegmentSize = 10\<rparr>,
                     \<lparr>iResolution = ''1280x720'', iBitrate = ''2500k'', iFormat = ''hls'',
                      iPath = ''videos/v1/hls/v1_v1.m3u8'', iSize = 0, iSegmentSize = 10\<rparr>]\<rparr> \<and>
   length (masterPlaylistEntries ''v1'' 0 ladder2) = 2"
proof -
  let ?W = "TranscodeVideoActivity workingHost encoder upload storeWithRow"
  let ?R = "\<lparr>tVideoID = ''v1'', OutputDirectory = ''/tmp/output-v1'',
          Streams = [\<lparr>iResolution = ''1920x1080'', iBitrate = ''5000k'', iFormat = ''hls'',
                      iPath = ''videos/v1/hls/v1_v0.m3u8'', iSize = 0, iSegmentSize = 10\<rparr>,
                     \<lparr>iResolution = ''1280x720'', iBitrate = ''2500k'', iFormat = ''hls'',
                      iPath = ''videos/v1/hls/v1_v1.m3u8'', iSize = 0, iSegmentSize = 10\<rparr>]\<rparr>"
  have r: "fst ?W = Inr ?R" by code_simp
  then have w: "?W = (Inr ?R, snd ?W)" by (metis prod.collapse)
  have c: "UnmarshalResolutions workingHost = Inr ladder2"
    by (simp add: workingHost_def ladder2_def)
  have v: "pVideoID upload = ''v1''" by (simp add: upload_def)
  have "length (masterPlaylistEntries (pVideoID upload) 0 ladder2) = length ladder2"
    using TranscodeVideoActivity_descriptors[OF w c] by blast
  with r v show ?thesis by (simp add: ladder2_def)
qed

text \<open>
  C3 as stated fails on the ladder of the one entry 1920x1080 at "5000k": the entry's
  \<open>BANDWIDTH\<close> attribute reads \<open>%!d(string=5000k)\<close>, what \<open>fmt\<close> prints for the
  verb \<open>%d\<close> on a string, not the variant's bitrate; and the encoder step returns
  its outcome only, the manifest text is not among the stage's products.
\<close>

theorem master_manifest_counterexample:
  "masterPlaylistEntries ''v1'' 0 [\<lparr>Width = 1920, Height = 1080, ResBitrate = ''5000k''\<rparr>] =
     [''#EXT-X-STREAM-INF:BANDWIDTH=%!d(string=5000k),RESOLUTION=1920x1080'' @ [CHR 0x0A] @
      ''v1_v0.m3u8'' @ [CHR 0x0A]] \<and>
   TranscodeToHLS encoder (Exec workingHost) ''/tmp/v1.mp4'' ''/tmp/output-v1'' ''v1''
     [\<lparr>Width = 1920, Height = 1080, ResBitrate = ''5000k''\<rparr>] = Inr ()"
  by (simp add: streamInf_def Sprintf_d_string_def Sprintf_d_def itoa.simps digit_def
      playlistFile_def variantName_def TranscodeToHLS_def Let_def workingHost_def)

end
